theory Spec2Isabelle
  imports Main "HOL-Library.AList"
begin

section \<open>Python values, strings and dictionaries\<close>

text \<open>
  The research agent (\<^verbatim>\<open>src/agents/research_agent.py\<close>) keeps its findings in
  dictionaries whose values are \<^verbatim>\<open>None\<close>, a string, or a list of strings. A dictionary
  is an association list with distinct keys in insertion order, which is the order
  \<^verbatim>\<open>list(d.keys())\<close> reports; \<^verbatim>\<open>d[k] = v\<close> is \<^const>\<open>AList.update\<close> (replace in place, or
  append a new key). Strings are byte strings; \<^verbatim>\<open>str.lower\<close> is modelled on ASCII.
\<close>

datatype error =
    ValueError string
  | KeyError string
  | AttributeError string
  | TypeError string
  | ProviderError string
  | ReError string

datatype pyval = PNone | PStr string | PList "string list"

type_synonym dict = "(string \<times> pyval) list"

text \<open>Python truthiness: \<^verbatim>\<open>None\<close>, \<^verbatim>\<open>''\<close> and \<^verbatim>\<open>[]\<close> are falsy.\<close>

fun truthy :: "pyval \<Rightarrow> bool" where
  "truthy PNone = False"
| "truthy (PStr s) = (s \<noteq> [])"
| "truthy (PList xs) = (xs \<noteq> [])"

text \<open>\<^verbatim>\<open>f"{x}"\<close> of a nullable column: \<^verbatim>\<open>None\<close> prints as \<^verbatim>\<open>None\<close>.\<close>

fun fmt :: "string option \<Rightarrow> string" where
  "fmt None = ''None''"
| "fmt (Some s) = s"

definition lower_char :: "char \<Rightarrow> char" where
  "lower_char c =
     (case map_of (zip ''ABCDEFGHIJKLMNOPQRSTUVWXYZ'' ''abcdefghijklmnopqrstuvwxyz'') c of
        Some l \<Rightarrow> l
      | None \<Rightarrow> c)"

definition lower :: "string \<Rightarrow> string" where
  "lower s = map lower_char s"

text \<open>\<^verbatim>\<open>s in t\<close> on strings: \<open>s\<close> occurs in \<open>t\<close> as a contiguous substring.\<close>

fun str_in :: "string \<Rightarrow> string \<Rightarrow> bool" where
  "str_in s [] = (s = [])"
| "str_in s (c # t) = (take (length s) (c # t) = s \<or> str_in s t)"

definition is_space :: "char \<Rightarrow> bool" where
  "is_space c = (c \<in> set [CHR '' '', CHR 0x09, CHR 0x0A, CHR 0x0B, CHR 0x0C, CHR 0x0D])"

definition strip :: "string \<Rightarrow> string" where
  "strip s = rev (dropWhile is_space (rev (dropWhile is_space s)))"

text \<open>\<^verbatim>\<open>d.update(e)\<close>: every entry of \<open>e\<close> is assigned into \<open>d\<close>, in the order of \<open>e\<close>.\<close>

definition dict_update :: "dict \<Rightarrow> dict \<Rightarrow> dict" where
  "dict_update d e = fold (\<lambda>(k, v) acc. AList.update k v acc) e d"

text \<open>\<^verbatim>\<open>d.get(k, [])\<close> read as a list; a value that is no list cannot be concatenated.\<close>

definition get_list :: "dict \<Rightarrow> string \<Rightarrow> error + string list" where
  "get_list d k =
     (case map_of d k of
        None \<Rightarrow> Inr []
      | Some (PList xs) \<Rightarrow> Inr xs
      | Some _ \<Rightarrow> Inl (TypeError k))"

section \<open>Targets and search hits\<close>

record company =
  c_id :: string
  c_name :: "string option"
  c_domain :: "string option"

record person =
  p_id :: string
  p_company_id :: "string option"

text \<open>A search hit is a dictionary read with \<^verbatim>\<open>get('snippet', '')\<close> and \<^verbatim>\<open>get('url', '')\<close>.\<close>

record hit =
  snippet :: "string option"
  url :: "string option"

record database =
  people :: "string \<rightharpoonup> person"
  companies :: "string \<rightharpoonup> company"

section \<open>The research agent\<close>

definition required_fields :: "string list" where
  "required_fields =
     [''company_value_prop'', ''product_names'', ''pricing_model'',
      ''key_competitors'', ''company_domain'']"

text \<open>\<^verbatim>\<open>field in results and results[field]\<close>; also \<^verbatim>\<open>insights.get(field)\<close> read as a condition.\<close>

definition field_present :: "dict \<Rightarrow> string \<Rightarrow> bool" where
  "field_present d f = (case map_of d f of None \<Rightarrow> False | Some v \<Rightarrow> truthy v)"

definition all_fields_found :: "dict \<Rightarrow> bool" where
  "all_fields_found results = list_all (field_present results) required_fields"

definition get_missing_fields :: "dict \<Rightarrow> string list" where
  "get_missing_fields current_results =
     filter (\<lambda>field. \<not> field_present current_results field) required_fields"

definition validate_results :: "dict \<Rightarrow> dict" where
  "validate_results results =
     fold (\<lambda>field validated.
             case map_of results field of
               None \<Rightarrow> validated
             | Some v \<Rightarrow> if truthy v then AList.update field v validated else validated)
          required_fields []"

definition generate_search_query :: "company \<Rightarrow> person \<Rightarrow> dict \<Rightarrow> nat \<Rightarrow> string" where
  "generate_search_query company person current_results iteration =
     (let missing_fields = get_missing_fields current_results in
      if iteration = 0 then fmt (c_name company) @ '' company overview products pricing''
      else if ''company_value_prop'' \<in> set missing_fields
        then fmt (c_name company) @ '' value proposition mission what does''
      else if ''pricing_model'' \<in> set missing_fields
        then fmt (c_name company) @ '' pricing plans cost subscription''
      else if ''key_competitors'' \<in> set missing_fields
        then fmt (c_name company) @ '' competitors alternatives vs''
      else fmt (c_name company) @ '' '' @ fmt (c_domain company) @ '' about products'')"

subsection \<open>Extraction\<close>

text \<open>
  \<^verbatim>\<open>re.search(pattern, text, re.IGNORECASE)\<close> belongs to the Python library, so the matcher
  is a parameter \<open>rs\<close>: it returns the matched text, \<^verbatim>\<open>None\<close>, or raises on a pattern
  that does not compile (the company name is spliced into the pattern unescaped).
\<close>

type_synonym matcher = "string \<Rightarrow> string \<Rightarrow> error + string option"

definition value_prop_patterns :: "string option \<Rightarrow> string list" where
  "value_prop_patterns company_name =
     [fmt company_name @ ''.*?specializes in.*?'' @ [CHR 0x5C] @ ''.'',
      fmt company_name @ ''.*?provides.*?'' @ [CHR 0x5C] @ ''.'',
      fmt company_name @ ''.*?offers.*?'' @ [CHR 0x5C] @ ''.'']"

fun first_match :: "matcher \<Rightarrow> string list \<Rightarrow> string \<Rightarrow> error + pyval" where
  "first_match rs [] text = Inr PNone"
| "first_match rs (pattern # patterns) text =
     (case rs pattern text of
        Inl e \<Rightarrow> Inl e
      | Inr (Some m) \<Rightarrow> Inr (PStr m)
      | Inr None \<Rightarrow> first_match rs patterns text)"

definition extract_value_prop :: "matcher \<Rightarrow> string \<Rightarrow> string option \<Rightarrow> error + pyval" where
  "extract_value_prop rs text company_name =
     first_match rs (value_prop_patterns company_name) text"

definition extract_products :: "string \<Rightarrow> string option \<Rightarrow> string list" where
  "extract_products text company_name =
     (if str_in ''software'' (lower text) then [''Software''] else []) @
     (if str_in ''cloud'' (lower text) then [''Cloud Solutions''] else []) @
     (if str_in ''consulting'' (lower text) then [''Consulting''] else [])"

definition extract_pricing :: "string \<Rightarrow> pyval" where
  "extract_pricing text =
     (if str_in ''subscription'' (lower text) then PStr ''Subscription-based pricing model''
      else if str_in ''freemium'' (lower text) then PStr ''Freemium pricing model''
      else if str_in ''pay-per-use'' (lower text) then PStr ''Pay-per-use pricing model''
      else PNone)"

definition common_competitors :: "string list" where
  "common_competitors = [''Microsoft'', ''Google'', ''Amazon'', ''IBM'', ''Oracle'', ''Salesforce'']"

text \<open>
  \<^verbatim>\<open>company_name.lower()\<close> is evaluated only once a competitor occurs in the text
  (\<^verbatim>\<open>and\<close> short-circuits), and raises on a company whose name is \<^verbatim>\<open>None\<close>.
\<close>

fun competitors_loop :: "string list \<Rightarrow> string \<Rightarrow> string option \<Rightarrow> string list \<Rightarrow> error + string list" where
  "competitors_loop [] text company_name competitors = Inr competitors"
| "competitors_loop (competitor # rest) text company_name competitors =
     (if str_in (lower competitor) (lower text) then
        (case company_name of
           None \<Rightarrow> Inl (AttributeError ''lower'')
         | Some n \<Rightarrow>
             if lower competitor \<noteq> lower n
             then competitors_loop rest text company_name (competitors @ [competitor])
             else competitors_loop rest text company_name competitors)
      else competitors_loop rest text company_name competitors)"

definition extract_competitors :: "string \<Rightarrow> string option \<Rightarrow> error + string list" where
  "extract_competitors text company_name =
     competitors_loop common_competitors text company_name []"

definition clean_text :: "string \<Rightarrow> string" where
  "clean_text text = strip text"

text \<open>\<^verbatim>\<open>list(set(xs))\<close>: the entries of \<open>xs\<close> without duplicates, in an order Python leaves open.\<close>

definition list_set :: "string list \<Rightarrow> string list" where
  "list_set xs = remdups xs"

definition dedup_field :: "string \<Rightarrow> dict \<Rightarrow> dict" where
  "dedup_field k insights =
     (case map_of insights k of
        Some (PList xs) \<Rightarrow> AList.update k (PList (list_set xs)) insights
      | _ \<Rightarrow> insights)"

definition deduplicate_insights :: "dict \<Rightarrow> dict" where
  "deduplicate_insights insights =
     dedup_field ''key_competitors'' (dedup_field ''product_names'' insights)"

text \<open>One pass of the loop over the hits in \<^verbatim>\<open>_extract_insights\<close>.\<close>

definition insights_step :: "matcher \<Rightarrow> company \<Rightarrow> hit \<Rightarrow> dict \<Rightarrow> error + dict" where
  "insights_step rs company result insights =
     (let text = clean_text (case snippet result of None \<Rightarrow> [] | Some s \<Rightarrow> s) in
      case (if \<not> field_present insights ''company_value_prop''
            then (case extract_value_prop rs text (c_name company) of
                    Inl e \<Rightarrow> Inl e
                  | Inr v \<Rightarrow> Inr (AList.update ''company_value_prop'' v insights))
            else Inr insights) of
        Inl e \<Rightarrow> Inl e
      | Inr i1 \<Rightarrow>
     (let products = extract_products text (c_name company) in
      case (if products \<noteq> []
            then (case get_list i1 ''product_names'' of
                    Inl e \<Rightarrow> Inl e
                  | Inr old \<Rightarrow> Inr (AList.update ''product_names'' (PList (list_set (old @ products))) i1))
            else Inr i1) of
        Inl e \<Rightarrow> Inl e
      | Inr i2 \<Rightarrow>
     (let i3 = (if \<not> field_present i2 ''pricing_model''
                then AList.update ''pricing_model'' (extract_pricing text) i2
                else i2) in
      case extract_competitors text (c_name company) of
        Inl e \<Rightarrow> Inl e
      | Inr competitors \<Rightarrow>
          if competitors \<noteq> []
          then (case get_list i3 ''key_competitors'' of
                  Inl e \<Rightarrow> Inl e
                | Inr old \<Rightarrow> Inr (AList.update ''key_competitors'' (PList (list_set (old @ competitors))) i3))
          else Inr i3)))"

fun insights_loop :: "matcher \<Rightarrow> company \<Rightarrow> hit list \<Rightarrow> dict \<Rightarrow> error + dict" where
  "insights_loop rs company [] insights = Inr insights"
| "insights_loop rs company (result # rest) insights =
     (case insights_step rs company result insights of
        Inl e \<Rightarrow> Inl e
      | Inr insights' \<Rightarrow> insights_loop rs company rest insights')"

definition extract_insights :: "matcher \<Rightarrow> hit list \<Rightarrow> company \<Rightarrow> error + dict" where
  "extract_insights rs search_results company =
     (case insights_loop rs company search_results [] of
        Inl e \<Rightarrow> Inl e
      | Inr insights \<Rightarrow> Inr (deduplicate_insights insights))"

subsection \<open>The search provider\<close>

text \<open>
  The provider is injected (\<^verbatim>\<open>DeepResearchAgent(search_provider)\<close>): an object with a
  \<^verbatim>\<open>search\<close> method, which may keep state of its own and may raise, and the
  \<^verbatim>\<open>mock_results\<close> attribute that \<^verbatim>\<open>research_person\<close> reads after its loop
  (\<open>None\<close> when the object has no such attribute).
\<close>

record 's provider =
  search :: "'s \<Rightarrow> string \<Rightarrow> (error + hit list) \<times> 's"
  mock_results :: "(string \<rightharpoonup> dict) option"

definition mock_results_table :: "string \<rightharpoonup> dict" where
  "mock_results_table = map_of
     [(''alpha'',
       [(''company_value_prop'', PStr ''Alpha Pro Tech Ltd. specializes in providing high-quality personal protective equipment (PPE) and infection control solutions tailored for medical and industrial sectors.''),
        (''product_names'', PList [''Disposable Protective Masks'', ''Surgical Gowns'', ''Coveralls'']),
        (''pricing_model'', PStr ''Alpha Pro Tech employs competitive pricing strategies, offering products at prices aligned with or slightly below industry averages. They provide volume discounts and tiered pricing for bulk purchases, along with seasonal promotions and contract pricing for long-term clients.''),
        (''key_competitors'', PList [''3M Company'', ''Kimberly-Clark'', ''Cardinal Health'']),
        (''company_domain'', PStr ''alpha.com'')]),
      (''techcorp'',
       [(''company_value_prop'', PStr ''TechCorp Solutions provides innovative technology solutions for enterprise clients.''),
        (''product_names'', PList [''Enterprise Software'', ''Cloud Solutions'', ''IT Consulting'']),
        (''pricing_model'', PStr ''TechCorp uses a subscription-based pricing model with tiered plans based on company size and feature requirements.''),
        (''key_competitors'', PList [''Microsoft'', ''IBM'', ''Oracle'']),
        (''company_domain'', PStr ''techcorp.com'')])]"

definition mock_search :: "unit \<Rightarrow> string \<Rightarrow> (error + hit list) \<times> unit" where
  "mock_search s query =
     (if str_in ''alpha'' (lower query)
        then (Inr [\<lparr>snippet = Some ''Alpha Pro Tech specializes in PPE equipment'',
                    url = Some ''https://alpha.com/about''\<rparr>], s)
      else if str_in ''techcorp'' (lower query)
        then (Inr [\<lparr>snippet = Some ''TechCorp Solutions provides enterprise technology'',
                    url = Some ''https://techcorp.com/about''\<rparr>], s)
      else (Inr [\<lparr>snippet = Some ''Generic search result'',
                  url = Some ''https://example.com''\<rparr>], s))"

definition MockSearchProvider :: "unit provider" where
  "MockSearchProvider = \<lparr>search = mock_search, mock_results = Some mock_results_table\<rparr>"

subsection \<open>The research loop\<close>

record progress_update =
  pu_type :: string
  pu_iteration :: nat
  total_iterations :: nat
  fields_found :: "string list"
  fields_remaining :: "string list"
  timestamp :: string

definition create_progress_update :: "nat \<Rightarrow> dict \<Rightarrow> progress_update" where
  "create_progress_update iteration results =
     \<lparr>pu_type = ''progress'',
      pu_iteration = iteration + 1,
      total_iterations = 3,
      fields_found = map fst results,
      fields_remaining = get_missing_fields results,
      timestamp = ''2025-07-28T12:00:00Z''\<rparr>"

text \<open>
  The local variables of \<^verbatim>\<open>research_person\<close> together with what the run has done so far:
  the progress updates handed to the callback, the queries sent to the provider and the
  provider's own state.
\<close>

record 's run_state =
  st_results :: dict
  st_iteration :: nat
  st_search_results :: "hit list"
  emitted :: "progress_update list"
  searched :: "string list"
  provider_state :: 's

definition max_iterations :: nat where
  "max_iterations = 3"

text \<open>
  \<^verbatim>\<open>progress_callback\<close> is an optional coroutine of the caller. Awaiting it with a progress
  update either returns (\<open>None\<close>) or raises (\<open>Some e\<close>); \<^verbatim>\<open>research_person\<close> has no handler
  around it.
\<close>

type_synonym callback = "progress_update \<Rightarrow> error option"

text \<open>
  The body of the \<^verbatim>\<open>while\<close> loop. The extractor is an argument, so that statements about
  the loop hold for every extractor; \<^verbatim>\<open>research_person\<close> passes \<^const>\<open>extract_insights\<close>.
  An exception of the provider, of the extractor or of the callback leaves the loop
  (\<open>Some e\<close>). \<^verbatim>\<open>_log_search\<close> is \<^verbatim>\<open>pass\<close>. \<open>emitted\<close> collects the updates handed to the
  callback.
\<close>

definition loop_body ::
  "('s \<Rightarrow> string \<Rightarrow> (error + hit list) \<times> 's) \<Rightarrow> (hit list \<Rightarrow> company \<Rightarrow> error + dict) \<Rightarrow>
   callback option \<Rightarrow> company \<Rightarrow> person \<Rightarrow> 's run_state \<Rightarrow> error option \<times> 's run_state" where
  "loop_body srch extract progress_callback company person st =
     (let query = generate_search_query company person (st_results st) (st_iteration st) in
      case srch (provider_state st) query of
        (Inl e, s') \<Rightarrow> (Some e, st\<lparr>searched := searched st @ [query], provider_state := s'\<rparr>)
      | (Inr hits, s') \<Rightarrow>
          (let st1 = st\<lparr>st_search_results := hits, searched := searched st @ [query],
                         provider_state := s'\<rparr> in
           case extract hits company of
             Inl e \<Rightarrow> (Some e, st1)
           | Inr extracted_data \<Rightarrow>
               (let st2 = st1\<lparr>st_results := dict_update (st_results st1) extracted_data\<rparr> in
                case progress_callback of
                  None \<Rightarrow> (None, st2\<lparr>st_iteration := st_iteration st2 + 1\<rparr>)
                | Some callback \<Rightarrow>
                    (let update = create_progress_update (st_iteration st2) (st_results st2);
                         st3 = st2\<lparr>emitted := emitted st2 @ [update]\<rparr>
                     in case callback update of
                          Some e \<Rightarrow> (Some e, st3)
                        | None \<Rightarrow> (None, st3\<lparr>st_iteration := st_iteration st3 + 1\<rparr>)))))"

function research_loop ::
  "('s \<Rightarrow> string \<Rightarrow> (error + hit list) \<times> 's) \<Rightarrow> (hit list \<Rightarrow> company \<Rightarrow> error + dict) \<Rightarrow>
   callback option \<Rightarrow> company \<Rightarrow> person \<Rightarrow> 's run_state \<Rightarrow> error option \<times> 's run_state" where
  "research_loop srch extract progress_callback company person st =
     (if st_iteration st < max_iterations \<and> \<not> all_fields_found (st_results st)
      then (case loop_body srch extract progress_callback company person st of
              (Some e, st') \<Rightarrow> (Some e, st')
            | (None, st') \<Rightarrow> research_loop srch extract progress_callback company person st')
      else (None, st))"
  by pat_completeness auto
termination
  apply (relation "measure (\<lambda>(srch, extract, cb, company, person, st). max_iterations - st_iteration st)")
   apply simp
  apply (auto simp: loop_body_def Let_def split: prod.splits sum.splits option.splits)
  done

declare research_loop.simps [simp del]

text \<open>
  The loop body run \<open>n\<close> times in a row without looking at the loop condition, stopping
  at the first exception: the yardstick against which the loop is measured.
\<close>

fun iterate_body ::
  "('s \<Rightarrow> string \<Rightarrow> (error + hit list) \<times> 's) \<Rightarrow> (hit list \<Rightarrow> company \<Rightarrow> error + dict) \<Rightarrow>
   callback option \<Rightarrow> company \<Rightarrow> person \<Rightarrow> nat \<Rightarrow> 's run_state \<Rightarrow> error option \<times> 's run_state" where
  "iterate_body srch extract progress_callback company person 0 st = (None, st)"
| "iterate_body srch extract progress_callback company person (Suc n) st =
     (case iterate_body srch extract progress_callback company person n st of
        (Some e, st') \<Rightarrow> (Some e, st')
      | (None, st') \<Rightarrow> loop_body srch extract progress_callback company person st')"

subsection \<open>The orchestration\<close>

text \<open>
  What a call of \<^verbatim>\<open>research_person\<close> has done when it returns or raises: the progress
  updates handed to the callback, the queries sent to the provider, the context snippets
  saved (company id, payload, source URLs) and the provider's state.
\<close>

record 's effects =
  events :: "progress_update list"
  queries :: "string list"
  saved :: "(string \<times> dict \<times> string list) list"
  provider_after :: 's

definition effects_of :: "'s run_state \<Rightarrow> (string \<times> dict \<times> string list) list \<Rightarrow> 's effects" where
  "effects_of st snippets =
     \<lparr>events = emitted st, queries = searched st, saved = snippets,
      provider_after = provider_state st\<rparr>"

definition initial_state :: "'s \<Rightarrow> 's run_state" where
  "initial_state s0 =
     \<lparr>st_results = [], st_iteration = 0, st_search_results = [], emitted = [], searched = [],
      provider_state = s0\<rparr>"

text \<open>\<^verbatim>\<open>company.name.lower() if company.name else 'techcorp'\<close>\<close>

definition company_key :: "company \<Rightarrow> string" where
  "company_key company =
     (case c_name company of
        None \<Rightarrow> ''techcorp''
      | Some n \<Rightarrow> if n \<noteq> [] then lower n else ''techcorp'')"

definition mock_key :: "company \<Rightarrow> string" where
  "mock_key company = (if str_in ''alpha'' (company_key company) then ''alpha'' else ''techcorp'')"

definition source_urls :: "hit list \<Rightarrow> string list" where
  "source_urls hits = map (\<lambda>result. case url result of None \<Rightarrow> [] | Some u \<Rightarrow> u) hits"

text \<open>
  \<^verbatim>\<open>Company.query.get(person.company_id)\<close>: a person without a company id finds no
  company. \<open>target_company\<close> is the company that a person id resolves to.
\<close>

definition company_of :: "database \<Rightarrow> person \<Rightarrow> company option" where
  "company_of db person =
     (case p_company_id person of None \<Rightarrow> None | Some cid \<Rightarrow> companies db cid)"

definition target_company :: "database \<Rightarrow> string \<Rightarrow> company option" where
  "target_company db person_id =
     (case people db person_id of None \<Rightarrow> None | Some person \<Rightarrow> company_of db person)"

text \<open>
  \<^verbatim>\<open>Person.query.get\<close> and \<^verbatim>\<open>Company.query.get\<close> are lookups in the database; a person
  without a company id finds no company. The two \<^verbatim>\<open>raise ValueError\<close> statements, a
  provider without \<^verbatim>\<open>mock_results\<close> and a table without the key are the \<open>Inl\<close> outcomes.
  \<open>progress_callback\<close> is \<open>None\<close> when the caller passed no callback.
\<close>

definition research_person ::
  "database \<Rightarrow> 's provider \<Rightarrow> matcher \<Rightarrow> string \<Rightarrow> callback option \<Rightarrow> 's \<Rightarrow>
   (error + dict) \<times> 's effects" where
  "research_person db prov rs person_id progress_callback s0 =
     (case people db person_id of
        None \<Rightarrow>
          (Inl (ValueError (''Person with ID '' @ person_id @ '' not found'')),
           effects_of (initial_state s0) [])
      | Some person \<Rightarrow>
          (case company_of db person of
             None \<Rightarrow>
               (Inl (ValueError (''Company for person '' @ person_id @ '' not found'')),
                effects_of (initial_state s0) [])
           | Some company \<Rightarrow>
               (case research_loop (search prov) (extract_insights rs) progress_callback company person
                       (initial_state s0) of
                  (Some e, st) \<Rightarrow> (Inl e, effects_of st [])
                | (None, st) \<Rightarrow>
                    (case mock_results prov of
                       None \<Rightarrow> (Inl (AttributeError ''mock_results''), effects_of st [])
                     | Some table \<Rightarrow>
                         (case table (mock_key company) of
                            None \<Rightarrow> (Inl (KeyError (mock_key company)), effects_of st [])
                          | Some results \<Rightarrow>
                              (let validated_results = validate_results results in
                               (Inr validated_results,
                                effects_of st
                                  [(c_id company, validated_results,
                                    source_urls (st_search_results st))])))))))"

section \<open>The session progress service\<close>

text \<open>
  \<^verbatim>\<open>WebSocketService\<close> (\<^verbatim>\<open>src/services/websocket_service.py\<close>) keeps one progress
  snapshot per session in \<^verbatim>\<open>progress_data\<close>, a dictionary from field names to JSON values,
  and sends events through Socket.IO: \<^verbatim>\<open>emit\<close> inside a handler answers the requesting
  client, \<^verbatim>\<open>socketio.emit(..., room=session_id)\<close> goes to the room of the session. The
  payload of an event is the dictionary as it is when the event is sent. Timestamps
  (\<^verbatim>\<open>datetime.utcnow().isoformat()\<close>) are arguments.
\<close>

datatype jval =
    JNone
  | JStr string
  | JInt int
  | JList "jval list"
  | JObj "(string \<times> jval) list"

type_synonym snapshot = "string \<rightharpoonup> jval"

datatype dest = Client string | Room string

record emission =
  ev_name :: string
  ev_payload :: snapshot
  ev_dest :: dest

record ws_state =
  active_sessions :: "string \<rightharpoonup> string"
  progress_data :: "string \<rightharpoonup> snapshot"
  rooms :: "string \<Rightarrow> string set"
  outbox :: "emission list"

text \<open>
  \<^verbatim>\<open>self.progress_data[session_id].update(patch)\<close> followed by
  \<^verbatim>\<open>self.socketio.emit(name, self.progress_data[session_id], room=session_id)\<close>, the shape
  shared by the updating methods. The subscript raises \<^verbatim>\<open>KeyError\<close> on a missing session.
\<close>

definition update_and_emit :: "string \<Rightarrow> string \<Rightarrow> snapshot \<Rightarrow> ws_state \<Rightarrow> error + ws_state" where
  "update_and_emit name session_id patch st =
     (case progress_data st session_id of
        None \<Rightarrow> Inl (KeyError session_id)
      | Some snap \<Rightarrow>
          Inr (st\<lparr>progress_data := (progress_data st)(session_id \<mapsto> snap ++ patch),
                  outbox := outbox st @
                    [\<lparr>ev_name = name, ev_payload = snap ++ patch, ev_dest = Room session_id\<rparr>]\<rparr>))"

text \<open>
  The handlers read \<^verbatim>\<open>data.get('session_id')\<close>: \<open>None\<close> when the key is missing, and an
  empty string is falsy. \<open>sid\<close> is \<^verbatim>\<open>request.sid\<close>, the connection of the requesting client.
\<close>

definition handle_join_research_session :: "string \<Rightarrow> string option \<Rightarrow> ws_state \<Rightarrow> ws_state" where
  "handle_join_research_session sid data_session_id st =
     (case data_session_id of
        None \<Rightarrow> st
      | Some session_id \<Rightarrow>
          if session_id \<noteq> [] then
            st\<lparr>rooms := (rooms st)(session_id := insert sid (rooms st session_id)),
               active_sessions := (active_sessions st)(sid \<mapsto> session_id),
               outbox := outbox st @
                 [\<lparr>ev_name = ''joined_session'',
                   ev_payload = [''session_id'' \<mapsto> JStr session_id,
                                 ''status'' \<mapsto> JStr ''Joined research session''],
                   ev_dest = Client sid\<rparr>]\<rparr>
          else st)"

definition handle_leave_research_session :: "string \<Rightarrow> string option \<Rightarrow> ws_state \<Rightarrow> ws_state" where
  "handle_leave_research_session sid data_session_id st =
     (case data_session_id of
        None \<Rightarrow> st
      | Some session_id \<Rightarrow>
          if session_id \<noteq> [] then
            st\<lparr>rooms := (rooms st)(session_id := rooms st session_id - {sid}),
               active_sessions := (active_sessions st)(sid := None),
               outbox := outbox st @
                 [\<lparr>ev_name = ''left_session'',
                   ev_payload = [''session_id'' \<mapsto> JStr session_id,
                                 ''status'' \<mapsto> JStr ''Left research session''],
                   ev_dest = Client sid\<rparr>]\<rparr>
          else st)"

definition handle_get_progress :: "string \<Rightarrow> string option \<Rightarrow> ws_state \<Rightarrow> ws_state" where
  "handle_get_progress sid data_session_id st =
     (case data_session_id of
        None \<Rightarrow> st
      | Some session_id \<Rightarrow>
          if session_id \<noteq> [] then
            (case progress_data st session_id of
               None \<Rightarrow> st
             | Some snap \<Rightarrow>
                 st\<lparr>outbox := outbox st @
                   [\<lparr>ev_name = ''progress_update'', ev_payload = snap, ev_dest = Client sid\<rparr>]\<rparr>)
          else st)"

definition initial_snapshot :: "string \<Rightarrow> string \<Rightarrow> string \<Rightarrow> string \<Rightarrow> snapshot" where
  "initial_snapshot session_id person_id person_name now =
     [''session_id'' \<mapsto> JStr session_id,
      ''person_id'' \<mapsto> JStr person_id,
      ''person_name'' \<mapsto> JStr person_name,
      ''status'' \<mapsto> JStr ''starting'',
      ''progress'' \<mapsto> JInt 0,
      ''current_step'' \<mapsto> JStr ''Initializing research...'',
      ''steps_completed'' \<mapsto> JInt 0,
      ''total_steps'' \<mapsto> JInt 5,
      ''start_time'' \<mapsto> JStr now,
      ''estimated_completion'' \<mapsto> JNone,
      ''results'' \<mapsto> JList []]"

text \<open>
  \<^verbatim>\<open>start_research_session\<close> stores the initial snapshot and announces it; the thread it
  starts is \<open>simulate_research_process\<close> below.
\<close>

definition start_research_session :: "string \<Rightarrow> string \<Rightarrow> string \<Rightarrow> string \<Rightarrow> ws_state \<Rightarrow> ws_state" where
  "start_research_session session_id person_id person_name now st =
     st\<lparr>progress_data :=
          (progress_data st)(session_id \<mapsto> initial_snapshot session_id person_id person_name now),
        outbox := outbox st @
          [\<lparr>ev_name = ''research_started'',
            ev_payload = initial_snapshot session_id person_id person_name now,
            ev_dest = Room session_id\<rparr>]\<rparr>"

definition update_progress :: "string \<Rightarrow> snapshot \<Rightarrow> ws_state \<Rightarrow> error + ws_state" where
  "update_progress session_id patch st =
     (if progress_data st session_id \<noteq> None
      then update_and_emit ''progress_update'' session_id patch st
      else Inr st)"

definition completed_patch :: "string \<Rightarrow> jval \<Rightarrow> snapshot" where
  "completed_patch now results =
     [''status'' \<mapsto> JStr ''completed'',
      ''progress'' \<mapsto> JInt 100,
      ''current_step'' \<mapsto> JStr ''Research completed successfully!'',
      ''completion_time'' \<mapsto> JStr now,
      ''results'' \<mapsto> results]"

definition complete_research :: "string \<Rightarrow> jval \<Rightarrow> string \<Rightarrow> ws_state \<Rightarrow> error + ws_state" where
  "complete_research session_id results now st =
     (if progress_data st session_id \<noteq> None
      then update_and_emit ''research_completed'' session_id (completed_patch now results) st
      else Inr st)"

definition error_patch :: "string \<Rightarrow> string \<Rightarrow> snapshot" where
  "error_patch now error_message =
     [''status'' \<mapsto> JStr ''error'',
      ''current_step'' \<mapsto> JStr (''Error: '' @ error_message),
      ''error_time'' \<mapsto> JStr now,
      ''error_message'' \<mapsto> JStr error_message]"

definition error_research :: "string \<Rightarrow> string \<Rightarrow> string \<Rightarrow> ws_state \<Rightarrow> error + ws_state" where
  "error_research session_id error_message now st =
     (if progress_data st session_id \<noteq> None
      then update_and_emit ''research_error'' session_id (error_patch now error_message) st
      else Inr st)"

definition get_session_progress :: "string \<Rightarrow> ws_state \<Rightarrow> snapshot option" where
  "get_session_progress session_id st = progress_data st session_id"

text \<open>\<^verbatim>\<open>del self.progress_data[session_id]\<close> raises \<^verbatim>\<open>KeyError\<close> on a missing key.\<close>

definition del_session :: "string \<Rightarrow> ws_state \<Rightarrow> error + ws_state" where
  "del_session session_id st =
     (case progress_data st session_id of
        None \<Rightarrow> Inl (KeyError session_id)
      | Some _ \<Rightarrow> Inr (st\<lparr>progress_data := (progress_data st)(session_id := None)\<rparr>))"

definition cleanup_session :: "string \<Rightarrow> ws_state \<Rightarrow> error + ws_state" where
  "cleanup_session session_id st =
     (if progress_data st session_id \<noteq> None then del_session session_id st else Inr st)"

subsection \<open>The simulated research run\<close>

definition steps :: "(string \<times> nat) list" where
  "steps =
     [(''Searching LinkedIn profiles...'', 2),
      (''Analyzing company information...'', 3),
      (''Gathering social media data...'', 2),
      (''Processing competitive intelligence...'', 4),
      (''Finalizing research report...'', 1)]"

definition company_info :: jval where
  "company_info =
     JObj [(''type'', JStr ''company_info''),
           (''data'', JObj [(''name'', JStr ''TechCorp Inc.''),
                            (''industry'', JStr ''Technology''),
                            (''employees'', JStr ''500-1000''),
                            (''revenue'', JStr ''$50M-$100M'')])]"

definition competitive_intel :: jval where
  "competitive_intel =
     JObj [(''type'', JStr ''competitive_intel''),
           (''data'', JObj [(''competitors'', JList [JStr ''CompetitorA'', JStr ''CompetitorB'']),
                            (''market_position'', JStr ''Strong''),
                            (''key_differentiators'',
                               JList [JStr ''Innovation'', JStr ''Customer Service''])])]"

text \<open>
  \<^verbatim>\<open>self.progress_data[session_id]['results'].append(entry)\<close>: both subscripts raise
  \<^verbatim>\<open>KeyError\<close> on a missing key, and only a list has \<^verbatim>\<open>append\<close>.
\<close>

definition append_result :: "string \<Rightarrow> jval \<Rightarrow> ws_state \<Rightarrow> error + ws_state" where
  "append_result session_id entry st =
     (case progress_data st session_id of
        None \<Rightarrow> Inl (KeyError session_id)
      | Some snap \<Rightarrow>
          (case snap ''results'' of
             None \<Rightarrow> Inl (KeyError ''results'')
           | Some (JList xs) \<Rightarrow>
               Inr (st\<lparr>progress_data :=
                         (progress_data st)(session_id \<mapsto> snap(''results'' \<mapsto> JList (xs @ [entry])))\<rparr>)
           | Some _ \<Rightarrow> Inl (AttributeError ''append'')))"

definition add_results :: "nat \<Rightarrow> string \<Rightarrow> ws_state \<Rightarrow> error + ws_state" where
  "add_results i session_id st =
     (if i = 1 then append_result session_id company_info st
      else if i = 3 then append_result session_id competitive_intel st
      else Inr st)"

text \<open>\<^verbatim>\<open>int((i / len(steps)) * 100)\<close>; for the five steps the float product is exact.\<close>

definition percent :: "nat \<Rightarrow> nat \<Rightarrow> int" where
  "percent i n = int ((i * 100) div n)"

definition progress_patch :: "nat \<Rightarrow> string \<Rightarrow> string \<Rightarrow> snapshot" where
  "progress_patch i step now =
     [''status'' \<mapsto> JStr ''in_progress'',
      ''progress'' \<mapsto> JInt (percent i (length steps)),
      ''current_step'' \<mapsto> JStr step,
      ''steps_completed'' \<mapsto> JInt (int i),
      ''estimated_completion'' \<mapsto> JStr now]"

text \<open>
  The loop over \<^verbatim>\<open>enumerate(steps)\<close>, from index \<open>i\<close>. The run is a thread of its own, and
  the service is shared with the request handlers: \<open>env i\<close> is what the other threads do
  to the service while the run sleeps in step \<open>i\<close> (the identity when nothing else
  happens). \<open>clock i\<close> is the time at step \<open>i\<close>. The result is the exception that ended
  the thread, if any, the service state and the events this run has sent, in order.
\<close>

fun sim_loop ::
  "(nat \<Rightarrow> string) \<Rightarrow> (nat \<Rightarrow> ws_state \<Rightarrow> ws_state) \<Rightarrow> string \<Rightarrow> nat \<Rightarrow> (string \<times> nat) list \<Rightarrow>
   ws_state \<Rightarrow> emission list \<Rightarrow> error option \<times> ws_state \<times> emission list" where
  "sim_loop clock env session_id i [] st sent = (None, st, sent)"
| "sim_loop clock env session_id i ((step, duration) # rest) st sent =
     (case progress_data st session_id of
        None \<Rightarrow> (None, st, sent)
      | Some snap \<Rightarrow>
          (let snap' = snap ++ progress_patch i step (clock i);
               ev = \<lparr>ev_name = ''progress_update'', ev_payload = snap', ev_dest = Room session_id\<rparr>;
               st1 = st\<lparr>progress_data := (progress_data st)(session_id \<mapsto> snap'),
                        outbox := outbox st @ [ev]\<rparr>;
               st2 = env i st1
           in case add_results i session_id st2 of
                Inl e \<Rightarrow> (Some e, st2, sent @ [ev])
              | Inr st3 \<Rightarrow> sim_loop clock env session_id (Suc i) rest st3 (sent @ [ev])))"

definition finish_patch :: "string \<Rightarrow> snapshot" where
  "finish_patch now =
     [''status'' \<mapsto> JStr ''completed'',
      ''progress'' \<mapsto> JInt 100,
      ''current_step'' \<mapsto> JStr ''Research completed successfully!'',
      ''steps_completed'' \<mapsto> JInt (int (length steps)),
      ''completion_time'' \<mapsto> JStr now]"

definition simulate_research_process ::
  "(nat \<Rightarrow> string) \<Rightarrow> (nat \<Rightarrow> ws_state \<Rightarrow> ws_state) \<Rightarrow> string \<Rightarrow> ws_state \<Rightarrow>
   error option \<times> ws_state \<times> emission list" where
  "simulate_research_process clock env session_id st =
     (if progress_data st session_id = None then (None, st, [])
      else
        (case sim_loop clock env session_id 0 steps st [] of
           (Some e, st', sent) \<Rightarrow> (Some e, st', sent)
         | (None, st', sent) \<Rightarrow>
             (case progress_data st' session_id of
                None \<Rightarrow> (None, st', sent)
              | Some snap \<Rightarrow>
                  (let snap' = snap ++ finish_patch (clock (length steps));
                       ev = \<lparr>ev_name = ''research_completed'', ev_payload = snap',
                             ev_dest = Room session_id\<rparr>
                   in (None,
                       st'\<lparr>progress_data := (progress_data st')(session_id \<mapsto> snap'),
                           outbox := outbox st' @ [ev]\<rparr>,
                       sent @ [ev])))))"

text \<open>The service as \<^verbatim>\<open>__init__\<close> leaves it: no session, no subscriber, nothing sent.\<close>

definition init_service :: ws_state where
  "init_service =
     \<lparr>active_sessions = Map.empty, progress_data = Map.empty, rooms = (\<lambda>_. {}), outbox = []\<rparr>"

subsection \<open>Example inputs\<close>

text \<open>A service holding one session \<^verbatim>\<open>s1\<close> whose snapshot already has one partial result.\<close>

definition example_snapshot :: snapshot where
  "example_snapshot =
     (initial_snapshot ''s1'' ''p1'' ''Ann'' ''t0'')(''results'' \<mapsto> JList [company_info])"

definition example_service :: ws_state where
  "example_service = init_service\<lparr>progress_data := [''s1'' \<mapsto> example_snapshot]\<rparr>"

text \<open>The same service after the session has been completed.\<close>

definition example_terminal_snapshot :: snapshot where
  "example_terminal_snapshot = example_snapshot ++ completed_patch ''t9'' (JList [company_info])"

definition example_terminal_service :: ws_state where
  "example_terminal_service = init_service\<lparr>progress_data := [''s1'' \<mapsto> example_terminal_snapshot]\<rparr>"

text \<open>
  A session is ready for the simulated run when its snapshot is in the registry and its
  \<^verbatim>\<open>results\<close> entry is a list; the other threads leave a run undisturbed when they keep
  it so.
\<close>

definition session_ready :: "string \<Rightarrow> ws_state \<Rightarrow> bool" where
  "session_ready session_id st =
     (case progress_data st session_id of
        None \<Rightarrow> False
      | Some snap \<Rightarrow> (case snap ''results'' of Some (JList xs) \<Rightarrow> True | _ \<Rightarrow> False))"

definition undisturbed :: "(nat \<Rightarrow> ws_state \<Rightarrow> ws_state) \<Rightarrow> string \<Rightarrow> bool" where
  "undisturbed env session_id =
     (\<forall>i st. session_ready session_id st \<longrightarrow> session_ready session_id (env i st))"

text \<open>Another thread serving \<^verbatim>\<open>DELETE /research/session/s1/cleanup\<close> while the run sleeps in step 2.\<close>

definition cleanup_during_step_2 :: "nat \<Rightarrow> ws_state \<Rightarrow> ws_state" where
  "cleanup_during_step_2 i st =
     (if i = 2 then (case cleanup_session ''s1'' st of Inl e \<Rightarrow> st | Inr st' \<Rightarrow> st') else st)"

text \<open>A clock that always reads the same time, and other threads that do nothing.\<close>

definition example_clock :: "nat \<Rightarrow> string" where
  "example_clock i = ''2025-07-28T12:00:00''"

definition no_interference :: "nat \<Rightarrow> ws_state \<Rightarrow> ws_state" where
  "no_interference i st = st"

text \<open>
  What the room of a session has been sent so far, in order; the other threads send nothing
  to the room when they leave this list as it is.
\<close>

definition room_events :: "string \<Rightarrow> ws_state \<Rightarrow> emission list" where
  "room_events session_id st = filter (\<lambda>e. ev_dest e = Room session_id) (outbox st)"

definition sends_nothing :: "(nat \<Rightarrow> ws_state \<Rightarrow> ws_state) \<Rightarrow> string \<Rightarrow> bool" where
  "sends_nothing env session_id =
     (\<forall>i st. room_events session_id (env i st) = room_events session_id st)"

text \<open>
  Another thread serving \<^verbatim>\<open>POST /research/session/s1/complete\<close> with an empty list of
  results while the run sleeps in step 1.
\<close>

definition complete_during_step_1 :: "nat \<Rightarrow> ws_state \<Rightarrow> ws_state" where
  "complete_during_step_1 i st =
     (if i = 1
      then (case complete_research ''s1'' (JList []) ''2025-07-28T12:00:03'' st of
              Inl e \<Rightarrow> st | Inr st' \<Rightarrow> st')
      else st)"

text \<open>What an observer of the room sees of a list of events: the name and the step counter.\<close>

definition trace_of :: "emission list \<Rightarrow> (string \<times> jval option) list" where
  "trace_of sent = map (\<lambda>e. (ev_name e, ev_payload e ''steps_completed'')) sent"

definition progress_trace :: "nat \<Rightarrow> (string \<times> jval option) list" where
  "progress_trace k = map (\<lambda>j. (''progress_update'', Some (JInt (int j)))) [0..<k]"

text \<open>
  A database with one person \<^verbatim>\<open>p1\<close> of the company Acme, a person \<^verbatim>\<open>p2\<close> of a second
  company with the same name, and a person \<^verbatim>\<open>p3\<close> without a company.
\<close>

definition example_company :: company where
  "example_company = \<lparr>c_id = ''c1'', c_name = Some ''Acme'', c_domain = Some ''acme.com''\<rparr>"

definition example_company2 :: company where
  "example_company2 = \<lparr>c_id = ''c2'', c_name = Some ''Acme'', c_domain = None\<rparr>"

definition example_person :: person where
  "example_person = \<lparr>p_id = ''p1'', p_company_id = Some ''c1''\<rparr>"

definition example_db :: database where
  "example_db =
     \<lparr>people = [''p1'' \<mapsto> example_person,
                 ''p2'' \<mapsto> \<lparr>p_id = ''p2'', p_company_id = Some ''c2''\<rparr>,
                 ''p3'' \<mapsto> \<lparr>p_id = ''p3'', p_company_id = None\<rparr>],
      companies = [''c1'' \<mapsto> example_company, ''c2'' \<mapsto> example_company2]\<rparr>"

text \<open>
  A matcher that finds nothing, which is what \<^verbatim>\<open>re.search\<close> answers for the value
  proposition patterns on a text without \<^verbatim>\<open>specializes in\<close>, \<^verbatim>\<open>provides\<close> and \<^verbatim>\<open>offers\<close>;
  and a provider with the table of the mock provider whose searches find no hit.
\<close>

definition no_match :: matcher where
  "no_match pattern text = Inr None"

definition silent_search :: "unit \<Rightarrow> string \<Rightarrow> (error + hit list) \<times> unit" where
  "silent_search s query = (Inr [], s)"

definition silent_provider :: "unit provider" where
  "silent_provider = \<lparr>search = silent_search, mock_results = Some mock_results_table\<rparr>"

text \<open>An extractor that finds every required field in one pass.\<close>

definition example_full_extract :: "hit list \<Rightarrow> company \<Rightarrow> error + dict" where
  "example_full_extract hits company =
     Inr [(''company_value_prop'', PStr ''Acme provides cloud software.''),
          (''product_names'', PList [''Software'']),
          (''pricing_model'', PStr ''Subscription-based pricing model''),
          (''key_competitors'', PList [''Microsoft'']),
          (''company_domain'', PStr ''acme.com'')]"

text \<open>A callback that accepts every progress update.\<close>

definition quiet_callback :: callback where
  "quiet_callback update = None"

text \<open>
  A provider whose first search finds a page that states the value proposition, a product
  and the pricing of Acme, and whose later searches find a page that only mentions
  consulting; its state counts the searches. \<open>example_match\<close> is what \<^verbatim>\<open>re.search\<close> answers
  on these two snippets for the three patterns of the company Acme: only the pattern with
  \<^verbatim>\<open>provides\<close> matches, on the first snippet, from its start to its full stop.
\<close>

definition example_hit_a :: hit where
  "example_hit_a =
     \<lparr>snippet = Some ''Acme provides software on subscription.'', url = Some ''https://acme.com''\<rparr>"

definition example_hit_b :: hit where
  "example_hit_b =
     \<lparr>snippet = Some ''Acme consulting'', url = Some ''https://acme.com/services''\<rparr>"

definition scripted_search :: "nat \<Rightarrow> string \<Rightarrow> (error + hit list) \<times> nat" where
  "scripted_search n query = (Inr [if n = 0 then example_hit_a else example_hit_b], Suc n)"

definition example_match :: matcher where
  "example_match pattern text =
     (if pattern = ''Acme.*?provides.*?'' @ [CHR 0x5C] @ ''.'' \<and>
         text = ''Acme provides software on subscription.''
      then Inr (Some text) else Inr None)"

section \<open>Properties of the session registry\<close>

text \<open>
  C10: for a session id that is not in the registry, \<open>get_session_progress\<close> returns
  \<open>None\<close>, and \<open>update_progress\<close>, \<open>complete_research\<close>, \<open>error_research\<close> and
  \<open>cleanup_session\<close> return normally (\<open>Inr\<close>: nothing is raised) with the service state
  unchanged, so nothing is stored and nothing is sent. From any state, \<open>cleanup_session\<close>
  succeeds, the session is absent afterwards, and a second cleanup succeeds and changes
  nothing.
\<close>

theorem unknown_session_is_noop:
  "(progress_data st sid = None \<longrightarrow>
      get_session_progress sid st = None \<and>
      update_progress sid patch st = Inr st \<and>
      complete_research sid results now st = Inr st \<and>
      error_research sid msg now st = Inr st \<and>
      cleanup_session sid st = Inr st) \<and>
   (\<exists>st1. cleanup_session sid st = Inr st1 \<and> progress_data st1 sid = None \<and>
          cleanup_session sid st1 = Inr st1)"
  by (cases "progress_data st sid")
     (simp_all add: get_session_progress_def update_progress_def complete_research_def
        error_research_def cleanup_session_def del_session_def)

theorem unknown_session_is_noop_witness:
  "progress_data init_service ''s1'' = None \<and>
   get_session_progress ''s1'' init_service = None \<and>
   update_progress ''s1'' [''progress'' \<mapsto> JInt 50] init_service = Inr init_service \<and>
   complete_research ''s1'' (JList []) ''t'' init_service = Inr init_service \<and>
   error_research ''s1'' ''boom'' ''t'' init_service = Inr init_service \<and>
   cleanup_session ''s1'' init_service = Inr init_service"
  using unknown_session_is_noop
    [of init_service "''s1''" "[''progress'' \<mapsto> JInt 50]" "JList []" "''t''" "''boom''"]
  by (simp add: init_service_def)

text \<open>
  C9: for a session that is in the registry, \<open>error_research\<close> returns normally; the
  snapshot stays in the registry and is what \<open>get_session_progress\<close> returns; its status is
  \<^verbatim>\<open>error\<close>, its error message and error time are the ones given; its \<^verbatim>\<open>results\<close> entry and
  every other field that the error patch does not name (the patch names \<^verbatim>\<open>status\<close>,
  \<^verbatim>\<open>current_step\<close>, \<^verbatim>\<open>error_time\<close>, \<^verbatim>\<open>error_message\<close>) are unchanged; the snapshots of the
  other sessions are unchanged.
\<close>

theorem error_research_keeps_results:
  "progress_data st sid = Some snap \<Longrightarrow>
   \<exists>st' snap'. error_research sid msg now st = Inr st' \<and>
     get_session_progress sid st' = Some snap' \<and>
     snap' ''status'' = Some (JStr ''error'') \<and>
     snap' ''error_message'' = Some (JStr msg) \<and>
     snap' ''error_time'' = Some (JStr now) \<and>
     snap' ''results'' = snap ''results'' \<and>
     (\<forall>k. k \<notin> {''status'', ''current_step'', ''error_time'', ''error_message''} \<longrightarrow>
          snap' k = snap k) \<and>
     (\<forall>other. other \<noteq> sid \<longrightarrow> progress_data st' other = progress_data st other)"
  by (simp add: error_research_def update_and_emit_def get_session_progress_def
        error_patch_def map_add_def)

theorem error_research_keeps_results_witness:
  "progress_data example_service ''s1'' = Some example_snapshot \<and>
   (\<exists>st' snap'. error_research ''s1'' ''boom'' ''t1'' example_service = Inr st' \<and>
      get_session_progress ''s1'' st' = Some snap' \<and>
      snap' ''status'' = Some (JStr ''error'') \<and>
      snap' ''error_message'' = Some (JStr ''boom'') \<and>
      snap' ''error_time'' = Some (JStr ''t1'') \<and>
      snap' ''results'' = example_snapshot ''results'' \<and>
      (\<forall>k. k \<notin> {''status'', ''current_step'', ''error_time'', ''error_message''} \<longrightarrow>
           snap' k = example_snapshot k) \<and>
      (\<forall>other. other \<noteq> ''s1'' \<longrightarrow>
           progress_data st' other = progress_data example_service other))"
proof -
  have present: "progress_data example_service ''s1'' = Some example_snapshot"
    by (simp add: example_service_def)
  from present error_research_keeps_results [OF present, of "''boom''" "''t1''"]
  show ?thesis by (rule conjI)
qed

section \<open>Properties of the subscription handlers\<close>

text \<open>
  C6 fails on the code. In a service whose session \<^verbatim>\<open>s1\<close> is completed, a client that
  joins the session is sent exactly one event, the \<^verbatim>\<open>joined_session\<close> acknowledgement,
  and its payload is not the terminal snapshot.
\<close>

theorem join_does_not_replay_counterexample:
  "progress_data example_terminal_service ''s1'' = Some example_terminal_snapshot \<and>
   example_terminal_snapshot ''status'' = Some (JStr ''completed'') \<and>
   outbox (handle_join_research_session ''c1'' (Some ''s1'') example_terminal_service) =
     [\<lparr>ev_name = ''joined_session'',
       ev_payload = [''session_id'' \<mapsto> JStr ''s1'', ''status'' \<mapsto> JStr ''Joined research session''],
       ev_dest = Client ''c1''\<rparr>] \<and>
   [''session_id'' \<mapsto> JStr ''s1'', ''status'' \<mapsto> JStr ''Joined research session'']
     \<noteq> example_terminal_snapshot"
proof -
  have a: "progress_data example_terminal_service ''s1'' = Some example_terminal_snapshot"
    by (simp add: example_terminal_service_def)
  have b: "example_terminal_snapshot ''status'' = Some (JStr ''completed'')"
    by (simp add: example_terminal_snapshot_def completed_patch_def)
  have c: "outbox (handle_join_research_session ''c1'' (Some ''s1'') example_terminal_service) =
     [\<lparr>ev_name = ''joined_session'',
       ev_payload = [''session_id'' \<mapsto> JStr ''s1'', ''status'' \<mapsto> JStr ''Joined research session''],
       ev_dest = Client ''c1''\<rparr>]"
    by (simp add: handle_join_research_session_def example_terminal_service_def init_service_def)
  have d: "[''session_id'' \<mapsto> JStr ''s1'', ''status'' \<mapsto> JStr ''Joined research session'']
     \<noteq> example_terminal_snapshot"
  proof
    assume "[''session_id'' \<mapsto> JStr ''s1'', ''status'' \<mapsto> JStr ''Joined research session'']
      = example_terminal_snapshot"
    then have "[''session_id'' \<mapsto> JStr ''s1'', ''status'' \<mapsto> JStr ''Joined research session''] ''status''
      = example_terminal_snapshot ''status''" by (rule arg_cong)
    with b show False by simp
  qed
  from a b c d show ?thesis by simp
qed

text \<open>
  C6, amended: joining a session (with a non-empty session id) sends the joining client
  exactly one event, the \<^verbatim>\<open>joined_session\<close> acknowledgement carrying the session id and
  the text \<^verbatim>\<open>Joined research session\<close>, whatever the status of the session, and not the
  snapshot. The join adds the client to the room of the session, removing no member of
  that room and changing no other room, records the session as the active session of the
  client and changes no snapshot. The latest snapshot, terminal or not, is sent to the
  client in reply to a \<^verbatim>\<open>get_progress\<close> request: one \<^verbatim>\<open>progress_update\<close> event carrying
  the snapshot when the session is in the registry, so that a client that joins and then
  asks is sent the acknowledgement followed by the snapshot; for a session that is not in
  the registry the request changes nothing and sends nothing.
\<close>

theorem join_acknowledges_only:
  "session_id \<noteq> [] \<Longrightarrow>
   outbox (handle_join_research_session sid (Some session_id) st) =
     outbox st @
     [\<lparr>ev_name = ''joined_session'',
       ev_payload = [''session_id'' \<mapsto> JStr session_id,
                     ''status'' \<mapsto> JStr ''Joined research session''],
       ev_dest = Client sid\<rparr>] \<and>
   progress_data (handle_join_research_session sid (Some session_id) st) = progress_data st \<and>
   rooms (handle_join_research_session sid (Some session_id) st) session_id =
     insert sid (rooms st session_id) \<and>
   (\<forall>other. other \<noteq> session_id \<longrightarrow>
      rooms (handle_join_research_session sid (Some session_id) st) other = rooms st other) \<and>
   active_sessions (handle_join_research_session sid (Some session_id) st) =
     (active_sessions st)(sid \<mapsto> session_id) \<and>
   (\<forall>snap. progress_data st session_id = Some snap \<longrightarrow>
      handle_get_progress sid (Some session_id) st =
        st\<lparr>outbox := outbox st @
          [\<lparr>ev_name = ''progress_update'', ev_payload = snap, ev_dest = Client sid\<rparr>]\<rparr> \<and>
      outbox (handle_get_progress sid (Some session_id)
                (handle_join_research_session sid (Some session_id) st)) =
        outbox st @
        [\<lparr>ev_name = ''joined_session'',
          ev_payload = [''session_id'' \<mapsto> JStr session_id,
                        ''status'' \<mapsto> JStr ''Joined research session''],
          ev_dest = Client sid\<rparr>,
         \<lparr>ev_name = ''progress_update'', ev_payload = snap, ev_dest = Client sid\<rparr>]) \<and>
   (progress_data st session_id = None \<longrightarrow>
      handle_get_progress sid (Some session_id) st = st \<and>
      outbox (handle_get_progress sid (Some session_id)
                (handle_join_research_session sid (Some session_id) st)) =
        outbox st @
        [\<lparr>ev_name = ''joined_session'',
          ev_payload = [''session_id'' \<mapsto> JStr session_id,
                        ''status'' \<mapsto> JStr ''Joined research session''],
          ev_dest = Client sid\<rparr>])"
  by (simp add: handle_join_research_session_def handle_get_progress_def)

theorem join_acknowledges_only_witness:
  "''s1'' \<noteq> [] \<and>
   progress_data example_terminal_service ''s1'' = Some example_terminal_snapshot \<and>
   outbox (handle_join_research_session ''c1'' (Some ''s1'') example_terminal_service) =
     [\<lparr>ev_name = ''joined_session'',
       ev_payload = [''session_id'' \<mapsto> JStr ''s1'',
                     ''status'' \<mapsto> JStr ''Joined research session''],
       ev_dest = Client ''c1''\<rparr>] \<and>
   rooms (handle_join_research_session ''c1'' (Some ''s1'') example_terminal_service) ''s1'' =
     {''c1''} \<and>
   ''s2'' \<noteq> ''s1'' \<and>
   rooms (handle_join_research_session ''c1'' (Some ''s1'') example_terminal_service) ''s2'' = {} \<and>
   outbox (handle_get_progress ''c1'' (Some ''s1'')
             (handle_join_research_session ''c1'' (Some ''s1'') example_terminal_service)) =
     [\<lparr>ev_name = ''joined_session'',
       ev_payload = [''session_id'' \<mapsto> JStr ''s1'',
                     ''status'' \<mapsto> JStr ''Joined research session''],
       ev_dest = Client ''c1''\<rparr>,
      \<lparr>ev_name = ''progress_update'', ev_payload = example_terminal_snapshot,
       ev_dest = Client ''c1''\<rparr>] \<and>
   ''s2'' \<noteq> [] \<and>
   progress_data example_terminal_service ''s2'' = None \<and>
   handle_get_progress ''c1'' (Some ''s2'') example_terminal_service = example_terminal_service"
proof -
  have ne: "''s1'' \<noteq> []" and ne2: "''s2'' \<noteq> []" and other: "''s2'' \<noteq> ''s1''"
    by simp_all
  have present: "progress_data example_terminal_service ''s1'' = Some example_terminal_snapshot"
    by (simp add: example_terminal_service_def)
  have absent: "progress_data example_terminal_service ''s2'' = None"
    by (simp add: example_terminal_service_def)
  have box: "outbox example_terminal_service = []"
    and room1: "rooms example_terminal_service ''s1'' = {}"
    and room2: "rooms example_terminal_service ''s2'' = {}"
    by (simp_all add: example_terminal_service_def init_service_def)
  note known = join_acknowledges_only [OF ne, of "''c1''" example_terminal_service]
  note unknown = join_acknowledges_only [OF ne2, of "''c1''" example_terminal_service]
  from known box
  have a: "outbox (handle_join_research_session ''c1'' (Some ''s1'') example_terminal_service) =
     [\<lparr>ev_name = ''joined_session'',
       ev_payload = [''session_id'' \<mapsto> JStr ''s1'',
                     ''status'' \<mapsto> JStr ''Joined research session''],
       ev_dest = Client ''c1''\<rparr>]"
    by simp
  from known room1
  have b: "rooms (handle_join_research_session ''c1'' (Some ''s1'') example_terminal_service) ''s1'' =
     {''c1''}"
    by simp
  from known other room2
  have c: "rooms (handle_join_research_session ''c1'' (Some ''s1'') example_terminal_service) ''s2'' = {}"
    by simp
  from known present box
  have d: "outbox (handle_get_progress ''c1'' (Some ''s1'')
             (handle_join_research_session ''c1'' (Some ''s1'') example_terminal_service)) =
     [\<lparr>ev_name = ''joined_session'',
       ev_payload = [''session_id'' \<mapsto> JStr ''s1'',
                     ''status'' \<mapsto> JStr ''Joined research session''],
       ev_dest = Client ''c1''\<rparr>,
      \<lparr>ev_name = ''progress_update'', ev_payload = example_terminal_snapshot,
       ev_dest = Client ''c1''\<rparr>]"
    by simp
  from unknown absent
  have e: "handle_get_progress ''c1'' (Some ''s2'') example_terminal_service = example_terminal_service"
    by simp
  from ne ne2 other present absent a b c d e show ?thesis by (intro conjI)
qed

section \<open>Properties of the simulated research run\<close>

lemma session_ready_iff:
  "session_ready sid st \<longleftrightarrow>
   (\<exists>snap xs. progress_data st sid = Some snap \<and> snap ''results'' = Some (JList xs))"
  by (auto simp: session_ready_def split: option.splits jval.splits)

lemma session_ready_appended:
  assumes "session_ready sid st"
  shows "\<exists>st'. append_result sid entry st = Inr st' \<and> session_ready sid st'"
proof -
  from assms obtain snap xs where
    snap: "progress_data st sid = Some snap" "snap ''results'' = Some (JList xs)"
    unfolding session_ready_iff by blast
  let ?st' = "st\<lparr>progress_data :=
                  (progress_data st)(sid \<mapsto> snap(''results'' \<mapsto> JList (xs @ [entry])))\<rparr>"
  have "append_result sid entry st = Inr ?st'"
    using snap by (simp add: append_result_def)
  moreover have "session_ready sid ?st'"
    unfolding session_ready_iff by simp
  ultimately show ?thesis by blast
qed

lemma session_ready_add_results:
  "session_ready sid st \<Longrightarrow> \<exists>st'. add_results i sid st = Inr st' \<and> session_ready sid st'"
  using session_ready_appended [of sid st] by (auto simp: add_results_def)

text \<open>Whatever the other threads do, the loop sends progress updates for consecutive steps.\<close>

lemma sim_loop_sent:
  "sim_loop clock env sid i stps st sent = (err, st', sent') \<Longrightarrow>
   \<exists>evs. sent' = sent @ evs \<and> length evs \<le> length stps \<and>
     trace_of evs = map (\<lambda>j. (''progress_update'', Some (JInt (int j)))) [i..<i + length evs] \<and>
     (err = None \<and> progress_data st' sid \<noteq> None \<longrightarrow> length evs = length stps)"
proof (induction stps arbitrary: i st sent)
  case Nil
  then show ?case by (simp add: trace_of_def)
next
  case (Cons a stps)
  obtain step duration where a: "a = (step, duration)" by (cases a)
  show ?case
  proof (cases "progress_data st sid")
    case None
    with Cons.prems a show ?thesis by (simp add: trace_of_def)
  next
    case (Some snap)
    define snap' where "snap' = snap ++ progress_patch i step (clock i)"
    define ev where "ev = \<lparr>ev_name = ''progress_update'', ev_payload = snap', ev_dest = Room sid\<rparr>"
    define st2 where "st2 = env i (st\<lparr>progress_data := (progress_data st)(sid \<mapsto> snap'),
                        outbox := outbox st @ [ev]\<rparr>)"
    have ev_trace: "trace_of [ev] = [(''progress_update'', Some (JInt (int i)))]"
      by (simp add: trace_of_def ev_def snap'_def progress_patch_def)
    show ?thesis
    proof (cases "add_results i sid st2")
      case (Inl e)
      with Cons.prems a Some have "sent' = sent @ [ev]" "err \<noteq> None"
        by (auto simp add: Let_def snap'_def ev_def st2_def)
      with ev_trace show ?thesis by (intro exI [of _ "[ev]"]) auto
    next
      case (Inr st3)
      with Cons.prems a Some
      have "sim_loop clock env sid (Suc i) stps st3 (sent @ [ev]) = (err, st', sent')"
        by (simp add: Let_def snap'_def ev_def st2_def)
      from Cons.IH [OF this] obtain evs where evs:
        "sent' = (sent @ [ev]) @ evs" "length evs \<le> length stps"
        "trace_of evs =
           map (\<lambda>j. (''progress_update'', Some (JInt (int j)))) [Suc i..<Suc i + length evs]"
        "err = None \<and> progress_data st' sid \<noteq> None \<longrightarrow> length evs = length stps"
        by blast
      have upt: "[i..<i + length (ev # evs)] = i # [Suc i..<Suc i + length evs]"
        by (simp add: upt_rec)
      have "trace_of (ev # evs) = trace_of [ev] @ trace_of evs"
        by (simp add: trace_of_def)
      with ev_trace evs(3) upt
      have "trace_of (ev # evs) =
          map (\<lambda>j. (''progress_update'', Some (JInt (int j)))) [i..<i + length (ev # evs)]"
        by simp
      with evs(1,2,4) show ?thesis
        by (intro exI [of _ "ev # evs"]) simp
    qed
  qed
qed

lemma sim_loop_undisturbed:
  assumes "undisturbed env sid"
  shows "session_ready sid st \<Longrightarrow>
     \<exists>st' sent'. sim_loop clock env sid i stps st sent = (None, st', sent') \<and> session_ready sid st'"
proof (induction stps arbitrary: i st sent)
  case Nil
  then show ?case by simp
next
  case (Cons a stps)
  obtain step duration where a: "a = (step, duration)" by (cases a)
  from Cons.prems obtain snap xs where
    snap: "progress_data st sid = Some snap" "snap ''results'' = Some (JList xs)"
    unfolding session_ready_iff by blast
  define snap' where "snap' = snap ++ progress_patch i step (clock i)"
  define ev where "ev = \<lparr>ev_name = ''progress_update'', ev_payload = snap', ev_dest = Room sid\<rparr>"
  define st1 where "st1 = st\<lparr>progress_data := (progress_data st)(sid \<mapsto> snap'),
                        outbox := outbox st @ [ev]\<rparr>"
  have "snap' ''results'' = Some (JList xs)"
    using snap by (simp add: snap'_def progress_patch_def map_add_def)
  then have "session_ready sid st1"
    unfolding session_ready_iff by (simp add: st1_def)
  with assms have "session_ready sid (env i st1)"
    by (simp add: undisturbed_def)
  from session_ready_add_results [OF this, of i] obtain st3 where
    st3: "add_results i sid (env i st1) = Inr st3" "session_ready sid st3" by blast
  from Cons.IH [OF st3(2), of "Suc i" "sent @ [ev]"] obtain st' sent' where
    "sim_loop clock env sid (Suc i) stps st3 (sent @ [ev]) = (None, st', sent')"
    "session_ready sid st'" by blast
  then show ?case
    using a snap st3 by (simp add: Let_def snap'_def ev_def st1_def)
qed

lemma add_results_outbox:
  "add_results i sid st = Inr st' \<Longrightarrow> outbox st' = outbox st"
  by (auto simp: add_results_def append_result_def split: if_splits option.splits jval.splits)

lemma sim_loop_room:
  assumes quiet: "sends_nothing env sid"
  shows "sim_loop clock env sid i stps st sent = (err, st', sent') \<Longrightarrow>
     \<exists>evs. sent' = sent @ evs \<and> room_events sid st' = room_events sid st @ evs"
proof (induction stps arbitrary: i st sent)
  case Nil
  then show ?case by simp
next
  case (Cons a stps)
  obtain step duration where a: "a = (step, duration)" by (cases a)
  show ?case
  proof (cases "progress_data st sid")
    case None
    with Cons.prems a show ?thesis by simp
  next
    case (Some snap)
    define snap' where "snap' = snap ++ progress_patch i step (clock i)"
    define ev where "ev = \<lparr>ev_name = ''progress_update'', ev_payload = snap', ev_dest = Room sid\<rparr>"
    define st1 where "st1 = st\<lparr>progress_data := (progress_data st)(sid \<mapsto> snap'),
                        outbox := outbox st @ [ev]\<rparr>"
    define st2 where "st2 = env i st1"
    have r1: "room_events sid st1 = room_events sid st @ [ev]"
      by (simp add: room_events_def st1_def ev_def)
    from quiet have "room_events sid st2 = room_events sid st1"
      by (simp add: sends_nothing_def st2_def)
    with r1 have r2: "room_events sid st2 = room_events sid st @ [ev]" by simp
    show ?thesis
    proof (cases "add_results i sid st2")
      case (Inl e)
      with Cons.prems a Some have "sent' = sent @ [ev]" "st' = st2"
        by (auto simp add: Let_def snap'_def ev_def st1_def st2_def)
      with r2 show ?thesis by simp
    next
      case (Inr st3)
      then have "outbox st3 = outbox st2" by (rule add_results_outbox)
      then have r3: "room_events sid st3 = room_events sid st @ [ev]"
        using r2 by (simp add: room_events_def)
      from Inr Cons.prems a Some
      have "sim_loop clock env sid (Suc i) stps st3 (sent @ [ev]) = (err, st', sent')"
        by (simp add: Let_def snap'_def ev_def st1_def st2_def)
      from Cons.IH [OF this] obtain evs where
        "sent' = (sent @ [ev]) @ evs" "room_events sid st' = room_events sid st3 @ evs"
        by blast
      with r3 show ?thesis by simp
    qed
  qed
qed

text \<open>
  C8 fails on the code, in two ways. The session \<^verbatim>\<open>s1\<close> is in the registry when the run
  starts. When another thread cleans the session up while the run sleeps in step 2, the
  run leaves its loop at the guard \<^verbatim>\<open>if session_id not in self.progress_data: break\<close> and
  skips the completion: the room has been sent three progress updates and no terminal
  event, and the run raised nothing. When another thread completes the session while the
  run sleeps in step 1, the room is sent a \<^verbatim>\<open>research_completed\<close> event after the progress
  update of step 1, then the progress updates of the steps 2, 3 and 4, then a second
  \<^verbatim>\<open>research_completed\<close> event.
\<close>

theorem run_without_terminal_event_counterexample:
  "fst (simulate_research_process example_clock cleanup_during_step_2 ''s1'' example_service) = None \<and>
   trace_of (room_events ''s1'' (fst (snd (simulate_research_process example_clock
       cleanup_during_step_2 ''s1'' example_service)))) =
     [(''progress_update'', Some (JInt 0)), (''progress_update'', Some (JInt 1)),
      (''progress_update'', Some (JInt 2))] \<and>
   fst (simulate_research_process example_clock complete_during_step_1 ''s1'' example_service) = None \<and>
   trace_of (room_events ''s1'' (fst (snd (simulate_research_process example_clock
       complete_during_step_1 ''s1'' example_service)))) =
     [(''progress_update'', Some (JInt 0)), (''progress_update'', Some (JInt 1)),
      (''research_completed'', Some (JInt 1)),
      (''progress_update'', Some (JInt 2)), (''progress_update'', Some (JInt 3)),
      (''progress_update'', Some (JInt 4)), (''research_completed'', Some (JInt 5))]"
proof -
  have a: "fst (simulate_research_process example_clock cleanup_during_step_2 ''s1''
             example_service) = None \<and>
     trace_of (room_events ''s1'' (fst (snd (simulate_research_process example_clock
         cleanup_during_step_2 ''s1'' example_service)))) =
       [(''progress_update'', Some (JInt 0)), (''progress_update'', Some (JInt 1)),
        (''progress_update'', Some (JInt 2))]"
    by (simp add: simulate_research_process_def steps_def example_service_def init_service_def
          cleanup_during_step_2_def cleanup_session_def del_session_def add_results_def
          append_result_def example_snapshot_def initial_snapshot_def Let_def map_add_def
          progress_patch_def trace_of_def room_events_def)
  have b: "fst (simulate_research_process example_clock complete_during_step_1 ''s1''
             example_service) = None \<and>
     trace_of (room_events ''s1'' (fst (snd (simulate_research_process example_clock
         complete_during_step_1 ''s1'' example_service)))) =
       [(''progress_update'', Some (JInt 0)), (''progress_update'', Some (JInt 1)),
        (''research_completed'', Some (JInt 1)),
        (''progress_update'', Some (JInt 2)), (''progress_update'', Some (JInt 3)),
        (''progress_update'', Some (JInt 4)), (''research_completed'', Some (JInt 5))]"
    by (simp add: simulate_research_process_def steps_def example_service_def init_service_def
          complete_during_step_1_def complete_research_def update_and_emit_def
          completed_patch_def add_results_def finish_patch_def
          append_result_def example_snapshot_def initial_snapshot_def Let_def map_add_def
          progress_patch_def trace_of_def room_events_def)
  from a b show ?thesis by simp
qed

text \<open>
  C8, amended. When the session is in the registry with a list of results at the start of
  its simulated run, and the other threads keep it so and send nothing to the room of the
  session during the run, the run raises nothing and the room is sent, after what it had
  been sent before, exactly the progress updates of the steps \<open>0, 1, 2, 3, 4\<close> in this order,
  each carrying its step number in \<^verbatim>\<open>steps_completed\<close>, followed by exactly one
  \<^verbatim>\<open>research_completed\<close> event, which is the last one. Whatever the other threads do, the
  events that the run itself sends are progress updates for the steps \<open>0, 1, \<dots>, k - 1\<close> in
  this order (\<open>k \<le> 5\<close>), followed by at most one \<^verbatim>\<open>research_completed\<close> event, which is sent
  only after all five progress updates; the run sends no error event; and when the other
  threads send nothing to the room, the room is sent exactly these events during the run.
  A run that raises nothing has sent the \<^verbatim>\<open>research_completed\<close> event when the session is in
  the registry at its end, and only progress updates, hence no terminal event, when the
  session is not.
\<close>

theorem simulated_run_events:
  "(\<exists>k\<le>5.
      trace_of (snd (snd (simulate_research_process clock env sid st))) = progress_trace k \<or>
      (k = 5 \<and> trace_of (snd (snd (simulate_research_process clock env sid st))) =
          progress_trace 5 @ [(''research_completed'', Some (JInt 5))])) \<and>
   (fst (simulate_research_process clock env sid st) = None \<longrightarrow>
      (progress_data (fst (snd (simulate_research_process clock env sid st))) sid \<noteq> None \<longrightarrow>
         trace_of (snd (snd (simulate_research_process clock env sid st))) =
           progress_trace 5 @ [(''research_completed'', Some (JInt 5))]) \<and>
      (progress_data (fst (snd (simulate_research_process clock env sid st))) sid = None \<longrightarrow>
         (\<exists>k\<le>5.
            trace_of (snd (snd (simulate_research_process clock env sid st))) = progress_trace k))) \<and>
   (sends_nothing env sid \<longrightarrow>
      room_events sid (fst (snd (simulate_research_process clock env sid st))) =
        room_events sid st @ snd (snd (simulate_research_process clock env sid st))) \<and>
   (session_ready sid st \<and> undisturbed env sid \<longrightarrow>
      fst (simulate_research_process clock env sid st) = None \<and>
      trace_of (snd (snd (simulate_research_process clock env sid st))) =
        progress_trace 5 @ [(''research_completed'', Some (JInt 5))]) \<and>
   (session_ready sid st \<and> undisturbed env sid \<and> sends_nothing env sid \<longrightarrow>
      trace_of (room_events sid (fst (snd (simulate_research_process clock env sid st)))) =
        trace_of (room_events sid st) @
        progress_trace 5 @ [(''research_completed'', Some (JInt 5))])"
proof -
  define R where "R = simulate_research_process clock env sid st"
  define T where "T = trace_of (snd (snd R))"
  define full where "full = progress_trace 5 @ [(''research_completed'', Some (JInt 5))]"
  have len: "length steps = 5" by (simp add: steps_def)
  have main:
        "(\<exists>k\<le>5. T = progress_trace k \<or> k = 5 \<and> T = full) \<and>
         (fst R = None \<longrightarrow>
            (progress_data (fst (snd R)) sid \<noteq> None \<longrightarrow> T = full) \<and>
            (progress_data (fst (snd R)) sid = None \<longrightarrow> (\<exists>k\<le>5. T = progress_trace k))) \<and>
         (sends_nothing env sid \<longrightarrow> room_events sid (fst (snd R)) = room_events sid st @ snd (snd R)) \<and>
         (session_ready sid st \<and> undisturbed env sid \<longrightarrow> fst R = None \<and> T = full)"
  proof (cases "progress_data st sid")
      case None
      then have r: "R = (None, st, [])"
        by (simp add: R_def simulate_research_process_def)
      from None have nr: "\<not> session_ready sid st"
        by (simp add: session_ready_def)
      have t: "T = progress_trace 0"
        by (simp add: T_def r trace_of_def progress_trace_def)
      have k0: "\<exists>k\<le>5. T = progress_trace k"
        using t by (intro exI [of _ 0]) simp
      from r None nr k0 show ?thesis
        by auto
    next
      case (Some snap0)
      obtain err st' sent where loop: "sim_loop clock env sid 0 steps st [] = (err, st', sent)"
        by (cases "sim_loop clock env sid 0 steps st []") auto
      from sim_loop_sent [OF loop] obtain evs where
        "sent = [] @ evs" "length evs \<le> length steps"
        "trace_of evs = map (\<lambda>j. (''progress_update'', Some (JInt (int j)))) [0..<0 + length evs]"
        "err = None \<and> progress_data st' sid \<noteq> None \<longrightarrow> length evs = length steps"
        by blast
      then have tr: "trace_of sent = progress_trace (length sent)"
        and le: "length sent \<le> 5"
        and all5: "err = None \<and> progress_data st' sid \<noteq> None \<longrightarrow> length sent = 5"
        by (simp_all add: progress_trace_def len)
      have room': "room_events sid st' = room_events sid st @ sent" if "sends_nothing env sid"
        using sim_loop_room [OF that loop] by simp
      have cases3:
        "(\<exists>k\<le>5. T = progress_trace k \<or> k = 5 \<and> T = full) \<and>
         (fst R = None \<longrightarrow>
            (progress_data (fst (snd R)) sid \<noteq> None \<longrightarrow> T = full) \<and>
            (progress_data (fst (snd R)) sid = None \<longrightarrow> (\<exists>k\<le>5. T = progress_trace k))) \<and>
         (sends_nothing env sid \<longrightarrow> room_events sid (fst (snd R)) = room_events sid st @ snd (snd R))"
      proof (cases "err = None \<and> progress_data st' sid \<noteq> None")
        case True
        then obtain snap where snap: "progress_data st' sid = Some snap" by auto
        define ev where "ev = \<lparr>ev_name = ''research_completed'',
            ev_payload = snap ++ finish_patch (clock (length steps)), ev_dest = Room sid\<rparr>"
        from True all5 have l5: "length sent = 5" by simp
        from True snap Some loop
        have r: "R = (None,
            st'\<lparr>progress_data := (progress_data st')(sid \<mapsto> snap ++ finish_patch (clock (length steps))),
                outbox := outbox st' @ [ev]\<rparr>, sent @ [ev])"
          by (simp add: R_def simulate_research_process_def Let_def ev_def)
        have "trace_of [ev] = [(''research_completed'', Some (JInt 5))]"
          by (simp add: trace_of_def ev_def finish_patch_def len)
        then have "T = trace_of sent @ [(''research_completed'', Some (JInt 5))]"
          by (simp add: T_def r trace_of_def)
        with tr l5 have t: "T = full" by (simp add: full_def)
        have present: "progress_data (fst (snd R)) sid \<noteq> None" by (simp add: r)
        have rm: "room_events sid (fst (snd R)) = room_events sid st' @ [ev]"
          by (simp add: r room_events_def ev_def)
        have a: "\<exists>k\<le>5. T = progress_trace k \<or> k = 5 \<and> T = full"
          using t by (intro exI [of _ 5]) simp
        have c: "sends_nothing env sid \<longrightarrow>
            room_events sid (fst (snd R)) = room_events sid st @ snd (snd R)"
          using room' rm by (simp add: r)
        from a t present c show ?thesis by auto
      next
        case False
        with Some loop
        have r: "R = (err, st', sent)"
          by (cases err; cases "progress_data st' sid")
             (simp_all add: R_def simulate_research_process_def)
        then have t: "T = progress_trace (length sent)" by (simp add: T_def tr)
        have a: "\<exists>k\<le>5. T = progress_trace k"
          using t le by (intro exI [of _ "length sent"]) simp
        then have a': "\<exists>k\<le>5. T = progress_trace k \<or> k = 5 \<and> T = full" by blast
        have b: "fst R = None \<longrightarrow> progress_data (fst (snd R)) sid = None"
          using False by (auto simp: r)
        have c: "sends_nothing env sid \<longrightarrow>
            room_events sid (fst (snd R)) = room_events sid st @ snd (snd R)"
          using room' by (simp add: r)
        from a a' b c show ?thesis by auto
      qed
      have sp: "session_ready sid st \<and> undisturbed env sid \<longrightarrow> fst R = None \<and> T = full"
      proof
        assume h: "session_ready sid st \<and> undisturbed env sid"
        then have ready: "session_ready sid st" and und: "undisturbed env sid" by simp_all
        from sim_loop_undisturbed [OF und ready, of clock 0 steps "[]"] loop
        have e: "err = None" and rd: "session_ready sid st'" by auto
        from rd obtain snap where snap: "progress_data st' sid = Some snap"
          unfolding session_ready_iff by blast
        from e snap Some loop have f: "fst R = None"
          by (simp add: R_def simulate_research_process_def Let_def)
        from e snap Some loop have "progress_data (fst (snd R)) sid \<noteq> None"
          by (simp add: R_def simulate_research_process_def Let_def)
        with f cases3 show "fst R = None \<and> T = full" by simp
      qed
      from cases3 sp show ?thesis
        by simp
  qed
  then have shape: "(\<exists>k\<le>5. T = progress_trace k \<or> (k = 5 \<and> T = full))"
    and ending: "fst R = None \<longrightarrow>
       (progress_data (fst (snd R)) sid \<noteq> None \<longrightarrow> T = full) \<and>
       (progress_data (fst (snd R)) sid = None \<longrightarrow> (\<exists>k\<le>5. T = progress_trace k))"
    and room: "sends_nothing env sid \<longrightarrow> room_events sid (fst (snd R)) = room_events sid st @ snd (snd R)"
    and special: "session_ready sid st \<and> undisturbed env sid \<longrightarrow> fst R = None \<and> T = full"
    by simp_all
  have both: "session_ready sid st \<and> undisturbed env sid \<and> sends_nothing env sid \<longrightarrow>
      trace_of (room_events sid (fst (snd R))) = trace_of (room_events sid st) @ full"
  proof
    assume h: "session_ready sid st \<and> undisturbed env sid \<and> sends_nothing env sid"
    with special have t: "T = full" by simp
    from h room have "room_events sid (fst (snd R)) = room_events sid st @ snd (snd R)" by simp
    then have "trace_of (room_events sid (fst (snd R))) =
        trace_of (room_events sid st) @ trace_of (snd (snd R))"
      by (simp add: trace_of_def)
    with t show "trace_of (room_events sid (fst (snd R))) = trace_of (room_events sid st) @ full"
      by (simp add: T_def)
  qed
  from shape ending room special both show ?thesis
    unfolding R_def T_def full_def by (intro conjI)
qed

lemma cleaned_up_run:
  "fst (simulate_research_process example_clock cleanup_during_step_2 ''s1'' example_service) = None \<and>
   progress_data (fst (snd (simulate_research_process example_clock cleanup_during_step_2 ''s1''
       example_service))) ''s1'' = None"
  by (simp add: simulate_research_process_def steps_def example_service_def init_service_def
        cleanup_during_step_2_def cleanup_session_def del_session_def add_results_def
        append_result_def example_snapshot_def initial_snapshot_def Let_def map_add_def
        progress_patch_def)

lemma progress_trace_no_terminal:
  "(''research_completed'', v) \<notin> set (progress_trace k)"
  by (auto simp: progress_trace_def)

theorem simulated_run_events_witness:
  "session_ready ''s1'' example_service \<and> undisturbed no_interference ''s1'' \<and>
   sends_nothing no_interference ''s1'' \<and>
   fst (simulate_research_process example_clock no_interference ''s1'' example_service) = None \<and>
   trace_of (room_events ''s1'' (fst (snd (simulate_research_process example_clock
       no_interference ''s1'' example_service)))) =
     progress_trace 5 @ [(''research_completed'', Some (JInt 5))] \<and>
   fst (simulate_research_process example_clock cleanup_during_step_2 ''s1'' example_service) = None \<and>
   progress_data (fst (snd (simulate_research_process example_clock cleanup_during_step_2 ''s1''
       example_service))) ''s1'' = None \<and>
   (''research_completed'', Some (JInt 5)) \<notin>
     set (trace_of (snd (snd (simulate_research_process example_clock cleanup_during_step_2 ''s1''
       example_service))))"
proof -
  have r: "session_ready ''s1'' example_service"
    by (simp add: session_ready_def example_service_def example_snapshot_def)
  have u: "undisturbed no_interference ''s1''"
    by (simp add: undisturbed_def no_interference_def)
  have q: "sends_nothing no_interference ''s1''"
    by (simp add: sends_nothing_def no_interference_def)
  have e: "trace_of (room_events ''s1'' example_service) = []"
    by (simp add: trace_of_def room_events_def example_service_def init_service_def)
  define Rq where
    "Rq = simulate_research_process example_clock no_interference ''s1'' example_service"
  define Rc where
    "Rc = simulate_research_process example_clock cleanup_during_step_2 ''s1'' example_service"
  note quiet = simulated_run_events [of example_clock no_interference "''s1''" example_service,
      folded Rq_def]
  note cleaned = simulated_run_events [of example_clock cleanup_during_step_2 "''s1''"
      example_service, folded Rc_def]
  from quiet have q4:
    "session_ready ''s1'' example_service \<and> undisturbed no_interference ''s1'' \<longrightarrow>
       fst Rq = None \<and>
       trace_of (snd (snd Rq)) = progress_trace 5 @ [(''research_completed'', Some (JInt 5))]"
    by (elim conjE)
  from quiet have q5:
    "session_ready ''s1'' example_service \<and> undisturbed no_interference ''s1'' \<and>
     sends_nothing no_interference ''s1'' \<longrightarrow>
       trace_of (room_events ''s1'' (fst (snd Rq))) =
         trace_of (room_events ''s1'' example_service) @
         progress_trace 5 @ [(''research_completed'', Some (JInt 5))]"
    by (elim conjE)
  from cleaned have c2:
    "fst Rc = None \<longrightarrow>
       (progress_data (fst (snd Rc)) ''s1'' \<noteq> None \<longrightarrow>
          trace_of (snd (snd Rc)) = progress_trace 5 @ [(''research_completed'', Some (JInt 5))]) \<and>
       (progress_data (fst (snd Rc)) ''s1'' = None \<longrightarrow>
          (\<exists>k\<le>5. trace_of (snd (snd Rc)) = progress_trace k))"
    by (elim conjE)
  from q4 r u have a: "fst Rq = None" by simp
  from q5 r u q e have b:
    "trace_of (room_events ''s1'' (fst (snd Rq))) =
       progress_trace 5 @ [(''research_completed'', Some (JInt 5))]"
    by simp
  from cleaned_up_run have c: "fst Rc = None"
    and d: "progress_data (fst (snd Rc)) ''s1'' = None"
    by (simp_all add: Rc_def)
  from c2 c d obtain k where "trace_of (snd (snd Rc)) = progress_trace k"
    by auto
  then have f: "(''research_completed'', Some (JInt 5)) \<notin> set (trace_of (snd (snd Rc)))"
    by (simp add: progress_trace_no_terminal)
  from r u q a b c d f show ?thesis unfolding Rq_def Rc_def by (intro conjI)
qed

section \<open>Properties of the query planner\<close>

text \<open>
  C7: for every company, person, current result set and iteration index the planner
  returns a non-empty string. At iteration 0 it is the overview query, the company name
  followed by \<^verbatim>\<open>company overview products pricing\<close>. At a later iteration it is the query
  for the first missing field in the order value proposition, pricing model, competitors,
  and when none of the three is missing the fallback query made of the company name, the
  company's domain and \<^verbatim>\<open>about products\<close>. A field is missing from the result set when
  the result set has no entry for it or the entry is \<^verbatim>\<open>None\<close>, an empty string or an empty
  list; the missing fields are exactly the required fields in this condition.
\<close>

theorem query_planner_cases:
  "generate_search_query company person current_results iteration \<noteq> [] \<and>
   (iteration = 0 \<longrightarrow>
      generate_search_query company person current_results iteration =
        fmt (c_name company) @ '' company overview products pricing'') \<and>
   (iteration > 0 \<longrightarrow>
      (\<not> (\<exists>v. map_of current_results ''company_value_prop'' = Some v \<and> truthy v) \<longrightarrow>
         generate_search_query company person current_results iteration =
           fmt (c_name company) @ '' value proposition mission what does'') \<and>
      ((\<exists>v. map_of current_results ''company_value_prop'' = Some v \<and> truthy v) \<and>
       \<not> (\<exists>v. map_of current_results ''pricing_model'' = Some v \<and> truthy v) \<longrightarrow>
         generate_search_query company person current_results iteration =
           fmt (c_name company) @ '' pricing plans cost subscription'') \<and>
      ((\<exists>v. map_of current_results ''company_value_prop'' = Some v \<and> truthy v) \<and>
       (\<exists>v. map_of current_results ''pricing_model'' = Some v \<and> truthy v) \<and>
       \<not> (\<exists>v. map_of current_results ''key_competitors'' = Some v \<and> truthy v) \<longrightarrow>
         generate_search_query company person current_results iteration =
           fmt (c_name company) @ '' competitors alternatives vs'') \<and>
      ((\<exists>v. map_of current_results ''company_value_prop'' = Some v \<and> truthy v) \<and>
       (\<exists>v. map_of current_results ''pricing_model'' = Some v \<and> truthy v) \<and>
       (\<exists>v. map_of current_results ''key_competitors'' = Some v \<and> truthy v) \<longrightarrow>
         generate_search_query company person current_results iteration =
           fmt (c_name company) @ '' '' @ fmt (c_domain company) @ '' about products'')) \<and>
   (\<forall>f. f \<in> set (get_missing_fields current_results) \<longleftrightarrow>
        f \<in> {''company_value_prop'', ''product_names'', ''pricing_model'', ''key_competitors'',
               ''company_domain''} \<and>
        \<not> (\<exists>v. map_of current_results f = Some v \<and> truthy v))"
proof -
  have present: "field_present current_results f \<longleftrightarrow>
      (\<exists>v. map_of current_results f = Some v \<and> truthy v)" for f
    by (cases "map_of current_results f") (simp_all add: field_present_def)
  have missing: "f \<in> set (get_missing_fields current_results) \<longleftrightarrow>
      f \<in> {''company_value_prop'', ''product_names'', ''pricing_model'', ''key_competitors'',
             ''company_domain''} \<and>
      \<not> (\<exists>v. map_of current_results f = Some v \<and> truthy v)" for f
    unfolding present [symmetric]
    by (auto simp: get_missing_fields_def required_fields_def)
  have in1: "''company_value_prop'' \<in> set (get_missing_fields current_results) \<longleftrightarrow>
      \<not> (\<exists>v. map_of current_results ''company_value_prop'' = Some v \<and> truthy v)"
    and in2: "''pricing_model'' \<in> set (get_missing_fields current_results) \<longleftrightarrow>
      \<not> (\<exists>v. map_of current_results ''pricing_model'' = Some v \<and> truthy v)"
    and in3: "''key_competitors'' \<in> set (get_missing_fields current_results) \<longleftrightarrow>
      \<not> (\<exists>v. map_of current_results ''key_competitors'' = Some v \<and> truthy v)"
    by (simp_all add: missing)
  show ?thesis
    unfolding generate_search_query_def Let_def in1 in2 in3
    using missing by simp
qed

theorem query_planner_cases_witness:
  "(1::nat) > 0 \<and>
   (\<exists>v. map_of [(''company_value_prop'', PStr ''Acme provides cloud software.''),
                 (''pricing_model'', PNone)] ''company_value_prop'' = Some v \<and> truthy v) \<and>
   \<not> (\<exists>v. map_of [(''company_value_prop'', PStr ''Acme provides cloud software.''),
                   (''pricing_model'', PNone)] ''pricing_model'' = Some v \<and> truthy v) \<and>
   generate_search_query example_company example_person
      [(''company_value_prop'', PStr ''Acme provides cloud software.''),
       (''pricing_model'', PNone)] 1 =
     ''Acme pricing plans cost subscription'' \<and>
   set (get_missing_fields [(''company_value_prop'', PStr ''Acme provides cloud software.''),
                            (''pricing_model'', PNone)]) =
     {''product_names'', ''pricing_model'', ''key_competitors'', ''company_domain''}"
proof -
  define r where "r = [(''company_value_prop'', PStr ''Acme provides cloud software.''),
                       (''pricing_model'', PNone)]"
  have a: "\<exists>v. map_of r ''company_value_prop'' = Some v \<and> truthy v"
    by (simp add: r_def)
  have b: "\<not> (\<exists>v. map_of r ''pricing_model'' = Some v \<and> truthy v)"
    by (simp add: r_def)
  have c: "fmt (c_name example_company) = ''Acme''"
    by (simp add: example_company_def)
  note t = query_planner_cases [of example_company example_person r 1]
  from t a b c have q: "generate_search_query example_company example_person r 1 =
      ''Acme pricing plans cost subscription''"
    by simp
  from t have m: "\<forall>f. f \<in> set (get_missing_fields r) \<longleftrightarrow>
        f \<in> {''company_value_prop'', ''product_names'', ''pricing_model'', ''key_competitors'',
               ''company_domain''} \<and>
        \<not> (\<exists>v. map_of r f = Some v \<and> truthy v)"
    by (elim conjE)
  have s: "set (get_missing_fields r) =
      {''product_names'', ''pricing_model'', ''key_competitors'', ''company_domain''}"
  proof (rule set_eqI)
    fix f
    from m have e: "f \<in> set (get_missing_fields r) \<longleftrightarrow>
        f \<in> {''company_value_prop'', ''product_names'', ''pricing_model'', ''key_competitors'',
               ''company_domain''} \<and>
        \<not> (\<exists>v. map_of r f = Some v \<and> truthy v)"
      by (rule spec)
    show "f \<in> set (get_missing_fields r) \<longleftrightarrow>
        f \<in> {''product_names'', ''pricing_model'', ''key_competitors'', ''company_domain''}"
      unfolding e by (auto simp: r_def)
  qed
  from a b q s show ?thesis unfolding r_def by simp
qed

section \<open>Properties of the orchestration\<close>

text \<open>
  C5 fails on the code in its last part. For a person id that is not in the database, and
  for a person whose company cannot be found, \<open>research_person\<close> does not return: its
  outcome is the raised \<^verbatim>\<open>ValueError\<close>.
\<close>

theorem not_found_is_raised_counterexample:
  "target_company example_db ''nobody'' = None \<and>
   fst (research_person example_db MockSearchProvider no_match ''nobody'' (Some quiet_callback) ()) =
     Inl (ValueError ''Person with ID nobody not found'') \<and>
   target_company example_db ''p3'' = None \<and>
   fst (research_person example_db MockSearchProvider no_match ''p3'' (Some quiet_callback) ()) =
     Inl (ValueError ''Company for person p3 not found'')"
  by (simp add: research_person_def target_company_def company_of_def example_db_def)

text \<open>
  C5, amended: when the person id or that person's company cannot be resolved,
  \<open>research_person\<close> raises \<^verbatim>\<open>ValueError\<close> (with the message \<^verbatim>\<open>Person with ID ... not found\<close>
  or \<^verbatim>\<open>Company for person ... not found\<close>) before any iteration runs: no query has been sent
  to the search provider, whose state is untouched, no progress update has been handed to
  the callback and nothing has been saved.
\<close>

theorem not_found_before_any_iteration:
  "target_company db person_id = None \<Longrightarrow>
   (fst (research_person db prov rs person_id progress_callback s0) =
      Inl (ValueError (''Person with ID '' @ person_id @ '' not found'')) \<or>
    fst (research_person db prov rs person_id progress_callback s0) =
      Inl (ValueError (''Company for person '' @ person_id @ '' not found''))) \<and>
   queries (snd (research_person db prov rs person_id progress_callback s0)) = [] \<and>
   events (snd (research_person db prov rs person_id progress_callback s0)) = [] \<and>
   saved (snd (research_person db prov rs person_id progress_callback s0)) = [] \<and>
   provider_after (snd (research_person db prov rs person_id progress_callback s0)) = s0"
  by (auto simp: research_person_def target_company_def effects_of_def initial_state_def
        split: option.splits)

theorem not_found_before_any_iteration_witness:
  "target_company example_db ''p3'' = None \<and>
   fst (research_person example_db MockSearchProvider no_match ''p3'' (Some quiet_callback) ()) =
      Inl (ValueError ''Company for person p3 not found'') \<and>
   queries (snd (research_person example_db MockSearchProvider no_match ''p3'' (Some quiet_callback) ())) = [] \<and>
   events (snd (research_person example_db MockSearchProvider no_match ''p3'' (Some quiet_callback) ())) = []"
proof -
  have t: "target_company example_db ''p3'' = None"
    by (simp add: target_company_def company_of_def example_db_def)
  have "fst (research_person example_db MockSearchProvider no_match ''p3'' (Some quiet_callback) ()) \<noteq>
      Inl (ValueError (''Person with ID '' @ ''p3'' @ '' not found''))"
    by (simp add: research_person_def company_of_def example_db_def)
  with not_found_before_any_iteration [OF t, of MockSearchProvider no_match "Some quiet_callback" "()"] t
  show ?thesis by simp
qed

section \<open>Properties of the research loop\<close>

lemma loop_body_effect:
  "loop_body srch ext cb company person st = (err, st') \<Longrightarrow>
   length (searched st') = Suc (length (searched st)) \<and>
   (err = None \<longrightarrow> st_iteration st' = Suc (st_iteration st))"
  by (auto simp: loop_body_def Let_def split: prod.splits sum.splits option.splits)

lemma iterate_body_front:
  "iterate_body srch ext cb company person (Suc n) st =
     (case loop_body srch ext cb company person st of
        (Some e, st') \<Rightarrow> (Some e, st')
      | (None, st') \<Rightarrow> iterate_body srch ext cb company person n st')"
proof (induction n)
  case 0
  show ?case by (simp split: prod.splits option.splits)
next
  case (Suc n)
  show ?case
    by (subst iterate_body.simps(2), subst Suc.IH)
       (simp split: prod.splits option.splits)
qed


lemma research_loop_iterate:
  "\<exists>n. n + st_iteration st \<le> max (st_iteration st) max_iterations \<and>
     research_loop srch ext cb company person st =
       iterate_body srch ext cb company person n st \<and>
     length (searched (snd (research_loop srch ext cb company person st))) =
       length (searched st) + n \<and>
     (\<forall>k<n. fst (iterate_body srch ext cb company person k st) = None \<and>
            \<not> all_fields_found (st_results (snd (iterate_body srch ext cb company person k st)))) \<and>
     (fst (research_loop srch ext cb company person st) = None \<longrightarrow>
        st_iteration (snd (research_loop srch ext cb company person st)) = st_iteration st + n \<and>
        (max_iterations \<le> st_iteration (snd (research_loop srch ext cb company person st)) \<or>
         all_fields_found (st_results (snd (research_loop srch ext cb company person st)))))"
proof (induction srch ext cb company person st rule: research_loop.induct)
  case (1 srch ext cb company person st)
  let ?guard = "st_iteration st < max_iterations \<and> \<not> all_fields_found (st_results st)"
  show ?case
  proof (cases ?guard)
    case False
    then have "research_loop srch ext cb company person st = (None, st)"
      by (subst research_loop.simps) auto
    with False show ?thesis
      by (intro exI [of _ 0]) auto
  next
    case True
    obtain err st' where body: "loop_body srch ext cb company person st = (err, st')"
      by (cases "loop_body srch ext cb company person st") auto
    from loop_body_effect [OF body]
    have grow: "length (searched st') = Suc (length (searched st))"
      and step: "err = None \<longrightarrow> st_iteration st' = Suc (st_iteration st)" by auto
    show ?thesis
    proof (cases err)
      case (Some e)
      with True body have "research_loop srch ext cb company person st = (Some e, st')"
        by (subst research_loop.simps) simp
      moreover from Some body
      have "iterate_body srch ext cb company person (Suc 0) st = (Some e, st')"
        by simp
      ultimately show ?thesis
        using True grow by (intro exI [of _ "Suc 0"]) (auto simp: max_def)
    next
      case None
      with True body
      have unfold: "research_loop srch ext cb company person st =
          research_loop srch ext cb company person st'"
        by (subst research_loop.simps) simp
      have "(None, st') = loop_body srch ext cb company person st"
        using None body by simp
      from "1.IH" [OF True this refl]
      obtain n where n:
        "n + st_iteration st' \<le> max (st_iteration st') max_iterations"
        "research_loop srch ext cb company person st' =
           iterate_body srch ext cb company person n st'"
        "length (searched (snd (research_loop srch ext cb company person st'))) =
           length (searched st') + n"
        "\<forall>k<n. fst (iterate_body srch ext cb company person k st') = None \<and>
            \<not> all_fields_found (st_results (snd (iterate_body srch ext cb company person k st')))"
        "fst (research_loop srch ext cb company person st') = None \<longrightarrow>
          st_iteration (snd (research_loop srch ext cb company person st')) = st_iteration st' + n \<and>
          (max_iterations \<le> st_iteration (snd (research_loop srch ext cb company person st')) \<or>
           all_fields_found (st_results (snd (research_loop srch ext cb company person st'))))"
        by auto
      have shift: "iterate_body srch ext cb company person (Suc k) st =
          iterate_body srch ext cb company person k st'" for k
        using None body by (simp add: iterate_body_front del: iterate_body.simps)
      have it: "st_iteration st' = Suc (st_iteration st)" using step None by simp
      have before: "fst (iterate_body srch ext cb company person k st) = None \<and>
            \<not> all_fields_found (st_results (snd (iterate_body srch ext cb company person k st)))"
        if "k < Suc n" for k
      proof (cases k)
        case 0
        with True show ?thesis by simp
      next
        case (Suc j)
        with that n(4) shift show ?thesis by simp
      qed
      show ?thesis
      proof (intro exI [of _ "Suc n"] conjI)
        show "Suc n + st_iteration st \<le> max (st_iteration st) max_iterations"
          using n(1) it True by (simp add: max_def split: if_splits)
        show "research_loop srch ext cb company person st =
            iterate_body srch ext cb company person (Suc n) st"
          using unfold n(2) shift by simp
        show "length (searched (snd (research_loop srch ext cb company person st))) =
            length (searched st) + Suc n"
          using unfold n(3) grow by simp
        show "\<forall>k<Suc n. fst (iterate_body srch ext cb company person k st) = None \<and>
            \<not> all_fields_found (st_results (snd (iterate_body srch ext cb company person k st)))"
          using before by blast
        show "fst (research_loop srch ext cb company person st) = None \<longrightarrow>
            st_iteration (snd (research_loop srch ext cb company person st)) = st_iteration st + Suc n \<and>
            (max_iterations \<le> st_iteration (snd (research_loop srch ext cb company person st)) \<or>
             all_fields_found (st_results (snd (research_loop srch ext cb company person st))))"
          using unfold n(5) it by auto
      qed
    qed
  qed
qed

lemma field_present_iff:
  "field_present r f \<longleftrightarrow> (\<exists>v. map_of r f = Some v \<and> truthy v)"
  by (cases "map_of r f") (simp_all add: field_present_def)

lemma all_fields_found_iff:
  "all_fields_found r \<longleftrightarrow>
     field_present r ''company_value_prop'' \<and> field_present r ''product_names'' \<and>
     field_present r ''pricing_model'' \<and> field_present r ''key_competitors'' \<and>
     field_present r ''company_domain''"
  by (simp add: all_fields_found_def required_fields_def)

lemma research_loop_from_start:
  "\<exists>n\<le>3.
      research_loop srch extractor cb company person (initial_state s0) =
        iterate_body srch extractor cb company person n (initial_state s0) \<and>
      length (searched (snd (research_loop srch extractor cb company person (initial_state s0)))) = n \<and>
      (\<forall>k<n. fst (iterate_body srch extractor cb company person k (initial_state s0)) = None \<and>
             \<not> all_fields_found
                 (st_results (snd (iterate_body srch extractor cb company person k (initial_state s0))))) \<and>
      (fst (research_loop srch extractor cb company person (initial_state s0)) = None \<longrightarrow>
         st_iteration (snd (research_loop srch extractor cb company person (initial_state s0))) = n \<and>
         (n = 3 \<or>
          all_fields_found
            (st_results (snd (research_loop srch extractor cb company person (initial_state s0))))))"
proof -
  define st where "st = (initial_state s0 :: 'a run_state)"
  define final where "final = research_loop srch extractor cb company person st"
  have i0: "st_iteration st = 0" and q0: "searched st = []"
    by (simp_all add: st_def initial_state_def)
  have "\<exists>n. n + st_iteration st \<le> max (st_iteration st) max_iterations \<and>
     research_loop srch extractor cb company person st =
       iterate_body srch extractor cb company person n st \<and>
     length (searched (snd (research_loop srch extractor cb company person st))) =
       length (searched st) + n \<and>
     (\<forall>k<n. fst (iterate_body srch extractor cb company person k st) = None \<and>
            \<not> all_fields_found (st_results (snd (iterate_body srch extractor cb company person k st)))) \<and>
     (fst (research_loop srch extractor cb company person st) = None \<longrightarrow>
        st_iteration (snd (research_loop srch extractor cb company person st)) = st_iteration st + n \<and>
        (max_iterations \<le> st_iteration (snd (research_loop srch extractor cb company person st)) \<or>
         all_fields_found (st_results (snd (research_loop srch extractor cb company person st)))))"
    by (rule research_loop_iterate)
  then obtain n where
    n1: "n + st_iteration st \<le> max (st_iteration st) max_iterations" and
    n2: "final = iterate_body srch extractor cb company person n st" and
    n3: "length (searched (snd final)) = length (searched st) + n" and
    n4: "\<forall>k<n. fst (iterate_body srch extractor cb company person k st) = None \<and>
        \<not> all_fields_found (st_results (snd (iterate_body srch extractor cb company person k st)))" and
    n5: "fst final = None \<longrightarrow>
       st_iteration (snd final) = st_iteration st + n \<and>
       (max_iterations \<le> st_iteration (snd final) \<or> all_fields_found (st_results (snd final)))"
    unfolding final_def by (elim exE conjE)
  from n1 have le: "n \<le> 3" by (simp add: i0 max_iterations_def)
  from n3 have len: "length (searched (snd final)) = n" by (simp add: q0)
  have fin: "fst final = None \<longrightarrow>
       st_iteration (snd final) = n \<and> (n = 3 \<or> all_fields_found (st_results (snd final)))"
  proof
    assume "fst final = None"
    with n5 have ab: "st_iteration (snd final) = n \<and>
        (3 \<le> st_iteration (snd final) \<or> all_fields_found (st_results (snd final)))"
      by (auto simp: i0 max_iterations_def)
    then have a: "st_iteration (snd final) = n" by simp
    from ab have b: "3 \<le> n \<or> all_fields_found (st_results (snd final))" by auto
    from b le have "n = 3 \<or> all_fields_found (st_results (snd final))" by auto
    with a show "st_iteration (snd final) = n \<and>
        (n = 3 \<or> all_fields_found (st_results (snd final)))" by simp
  qed
  have "n \<le> 3 \<and> final = iterate_body srch extractor cb company person n st \<and>
      length (searched (snd final)) = n \<and>
      (\<forall>k<n. fst (iterate_body srch extractor cb company person k st) = None \<and>
             \<not> all_fields_found (st_results (snd (iterate_body srch extractor cb company person k st)))) \<and>
      (fst final = None \<longrightarrow>
         st_iteration (snd final) = n \<and> (n = 3 \<or> all_fields_found (st_results (snd final))))"
    using le n2 len n4 fin by (intro conjI)
  then show ?thesis
    unfolding final_def st_def by (rule exI)
qed

text \<open>
  C2: for every company and person, every search provider (whatever it answers, raising
  included), every extractor and with or without a callback, the loop of
  \<open>research_person\<close>, started from the initial state, runs its body \<open>n\<close> times for some
  \<open>n \<le> 3\<close> and sends exactly \<open>n\<close> queries to the provider. Before each of these \<open>n\<close>
  iterations no exception had been raised and some required field was still missing, so
  the loop goes on only while the count is below 3 and the fields are not all found. When
  the loop ends without an exception, its counter is \<open>n\<close>, and either \<open>n = 3\<close> or all fields
  are found: the loop stops before the next iteration as soon as a merge has made all
  five required fields present and non-empty. All fields are found exactly when each of
  \<^verbatim>\<open>company_value_prop\<close>, \<^verbatim>\<open>product_names\<close>, \<^verbatim>\<open>pricing_model\<close>, \<^verbatim>\<open>key_competitors\<close> and
  \<^verbatim>\<open>company_domain\<close> is a key of the results with a truthy value.
\<close>

theorem research_loop_at_most_three:
  "(\<exists>n\<le>3.
      research_loop srch extractor cb company person (initial_state s0) =
        iterate_body srch extractor cb company person n (initial_state s0) \<and>
      length (searched (snd (research_loop srch extractor cb company person (initial_state s0)))) = n \<and>
      (\<forall>k<n. fst (iterate_body srch extractor cb company person k (initial_state s0)) = None \<and>
             \<not> all_fields_found
                 (st_results (snd (iterate_body srch extractor cb company person k (initial_state s0))))) \<and>
      (fst (research_loop srch extractor cb company person (initial_state s0)) = None \<longrightarrow>
         st_iteration (snd (research_loop srch extractor cb company person (initial_state s0))) = n \<and>
         (n = 3 \<or>
          all_fields_found
            (st_results (snd (research_loop srch extractor cb company person (initial_state s0))))))) \<and>
   (all_fields_found r \<longleftrightarrow>
      (\<exists>v. map_of r ''company_value_prop'' = Some v \<and> truthy v) \<and>
      (\<exists>v. map_of r ''product_names'' = Some v \<and> truthy v) \<and>
      (\<exists>v. map_of r ''pricing_model'' = Some v \<and> truthy v) \<and>
      (\<exists>v. map_of r ''key_competitors'' = Some v \<and> truthy v) \<and>
      (\<exists>v. map_of r ''company_domain'' = Some v \<and> truthy v))"
  by (rule conjI, rule research_loop_from_start)
     (simp only: all_fields_found_iff field_present_iff)

lemma example_early_exit:
  "research_loop silent_search example_full_extract (Some quiet_callback) example_company example_person
     (initial_state ()) =
   loop_body silent_search example_full_extract (Some quiet_callback) example_company example_person
     (initial_state ())"
  "fst (loop_body silent_search example_full_extract (Some quiet_callback) example_company example_person
     (initial_state ())) = None"
  "st_iteration (snd (loop_body silent_search example_full_extract (Some quiet_callback) example_company
     example_person (initial_state ()))) = 1"
proof -
  have body: "loop_body silent_search example_full_extract (Some quiet_callback) example_company example_person
     (initial_state ()) =
     (None, \<lparr>st_results = [(''company_value_prop'', PStr ''Acme provides cloud software.''),
          (''product_names'', PList [''Software'']),
          (''pricing_model'', PStr ''Subscription-based pricing model''),
          (''key_competitors'', PList [''Microsoft'']),
          (''company_domain'', PStr ''acme.com'')],
        st_iteration = 1, st_search_results = [],
        emitted = [create_progress_update 0
          [(''company_value_prop'', PStr ''Acme provides cloud software.''),
          (''product_names'', PList [''Software'']),
          (''pricing_model'', PStr ''Subscription-based pricing model''),
          (''key_competitors'', PList [''Microsoft'']),
          (''company_domain'', PStr ''acme.com'')]],
        searched = [''Acme company overview products pricing''],
        provider_state = ()\<rparr>)"
    by (simp add: loop_body_def initial_state_def silent_search_def example_full_extract_def
          generate_search_query_def example_company_def dict_update_def Let_def
          quiet_callback_def)
  show "fst (loop_body silent_search example_full_extract (Some quiet_callback) example_company example_person
     (initial_state ())) = None"
    and "st_iteration (snd (loop_body silent_search example_full_extract (Some quiet_callback) example_company
     example_person (initial_state ()))) = 1"
    by (simp_all add: body)
  show "research_loop silent_search example_full_extract (Some quiet_callback) example_company example_person
     (initial_state ()) =
   loop_body silent_search example_full_extract (Some quiet_callback) example_company example_person
     (initial_state ())"
    apply (subst research_loop.simps)
    apply (simp add: body)
    apply (simp add: initial_state_def all_fields_found_iff field_present_def max_iterations_def)
    apply (subst research_loop.simps)
    apply (simp add: all_fields_found_iff field_present_def)
    done
qed

theorem research_loop_at_most_three_witness:
  "fst (research_loop silent_search example_full_extract (Some quiet_callback) example_company example_person
      (initial_state ())) = None \<and>
   st_iteration (snd (research_loop silent_search example_full_extract (Some quiet_callback) example_company
      example_person (initial_state ()))) = 1 \<and>
   length (searched (snd (research_loop silent_search example_full_extract (Some quiet_callback) example_company
      example_person (initial_state ())))) = 1 \<and>
   all_fields_found (st_results (snd (research_loop silent_search example_full_extract (Some quiet_callback)
      example_company example_person (initial_state ()))))"
proof -
  define final where "final = research_loop silent_search example_full_extract (Some quiet_callback)
      example_company example_person (initial_state ())"
  have e: "fst final = None" "st_iteration (snd final) = 1"
    using example_early_exit by (simp_all add: final_def)
  from research_loop_at_most_three [of silent_search example_full_extract "Some quiet_callback" example_company
      example_person "()" "[]"]
  obtain n where
    len: "length (searched (snd final)) = n" and
    fin: "fst final = None \<longrightarrow> st_iteration (snd final) = n \<and>
        (n = 3 \<or> all_fields_found (st_results (snd final)))"
    unfolding final_def by (elim conjE exE)
  from e fin have "n = 1" and "all_fields_found (st_results (snd final))" by auto
  with e len show ?thesis unfolding final_def by simp
qed

section \<open>Properties of the returned result\<close>

text \<open>The lower-cased strings of the examples, computed once.\<close>

lemma lower_examples:
  "lower ''Acme provides software on subscription.'' = ''acme provides software on subscription.''"
  "lower ''Acme consulting'' = ''acme consulting''"
  "lower ''Generic search result'' = ''generic search result''"
  "lower ''Acme company overview products pricing'' = ''acme company overview products pricing''"
  "lower ''Acme value proposition mission what does'' = ''acme value proposition mission what does''"
  "lower ''Acme'' = ''acme''"
  "lower ''Microsoft'' = ''microsoft''"
  "lower ''Google'' = ''google''"
  "lower ''Amazon'' = ''amazon''"
  "lower ''IBM'' = ''ibm''"
  "lower ''Oracle'' = ''oracle''"
  "lower ''Salesforce'' = ''salesforce''"
  by (simp_all add: lower_def lower_char_def)





lemma example_run_silent:
  "fst (research_person example_db silent_provider no_match ''p1'' None ()) =
     Inr [(''company_value_prop'', PStr ''TechCorp Solutions provides innovative technology solutions for enterprise clients.''),
        (''product_names'', PList [''Enterprise Software'', ''Cloud Solutions'', ''IT Consulting'']),
        (''pricing_model'', PStr ''TechCorp uses a subscription-based pricing model with tiered plans based on company size and feature requirements.''),
        (''key_competitors'', PList [''Microsoft'', ''IBM'', ''Oracle'']),
        (''company_domain'', PStr ''techcorp.com'')]"
  by (simp add: research_person_def example_db_def example_person_def company_of_def
        example_company_def silent_provider_def silent_search_def research_loop.simps
        loop_body_def initial_state_def max_iterations_def all_fields_found_def
        required_fields_def field_present_def extract_insights_def deduplicate_insights_def
        dedup_field_def dict_update_def generate_search_query_def get_missing_fields_def
        Let_def mock_key_def company_key_def lower_def lower_char_def mock_results_table_def
        validate_results_def)

lemma example_generic_hit:
  "mock_search () ''Acme company overview products pricing'' =
     (Inr [\<lparr>snippet = Some ''Generic search result'', url = Some ''https://example.com''\<rparr>], ())"
  "mock_search () ''Acme value proposition mission what does'' =
     (Inr [\<lparr>snippet = Some ''Generic search result'', url = Some ''https://example.com''\<rparr>], ())"
  by (simp_all add: mock_search_def lower_examples)

lemma example_generic_insights:
  "extract_insights no_match
     [\<lparr>snippet = Some ''Generic search result'', url = Some ''https://example.com''\<rparr>]
     example_company2 =
   Inr [(''company_value_prop'', PNone), (''pricing_model'', PNone)]"
  by (simp add: extract_insights_def deduplicate_insights_def dedup_field_def
        insights_step_def clean_text_def strip_def is_space_def field_present_def
        extract_value_prop_def value_prop_patterns_def no_match_def extract_products_def
        extract_pricing_def extract_competitors_def common_competitors_def get_list_def
        list_set_def lower_examples example_company2_def Let_def)

lemma example_run_mock:
  "fst (research_person example_db MockSearchProvider no_match ''p2'' (Some quiet_callback) ()) =
     Inr [(''company_value_prop'', PStr ''TechCorp Solutions provides innovative technology solutions for enterprise clients.''),
        (''product_names'', PList [''Enterprise Software'', ''Cloud Solutions'', ''IT Consulting'']),
        (''pricing_model'', PStr ''TechCorp uses a subscription-based pricing model with tiered plans based on company size and feature requirements.''),
        (''key_competitors'', PList [''Microsoft'', ''IBM'', ''Oracle'']),
        (''company_domain'', PStr ''techcorp.com'')]"
proof -
  have name: "c_name example_company2 = Some ''Acme''"
    by (simp add: example_company2_def)
  have key: "mock_key example_company2 = ''techcorp''"
    by (simp add: mock_key_def company_key_def example_company2_def lower_def lower_char_def)
  have entry: "mock_results_table ''techcorp'' =
     Some [(''company_value_prop'', PStr ''TechCorp Solutions provides innovative technology solutions for enterprise clients.''),
        (''product_names'', PList [''Enterprise Software'', ''Cloud Solutions'', ''IT Consulting'']),
        (''pricing_model'', PStr ''TechCorp uses a subscription-based pricing model with tiered plans based on company size and feature requirements.''),
        (''key_competitors'', PList [''Microsoft'', ''IBM'', ''Oracle'']),
        (''company_domain'', PStr ''techcorp.com'')]"
    by (simp add: mock_results_table_def)
  have loop: "fst (research_loop mock_search (extract_insights no_match) (Some quiet_callback)
      example_company2 \<lparr>p_id = ''p2'', p_company_id = Some ''c2''\<rparr> (initial_state ())) = None"
    by (simp add: research_loop.simps loop_body_def initial_state_def max_iterations_def
          all_fields_found_def required_fields_def field_present_def dict_update_def
          generate_search_query_def get_missing_fields_def Let_def name
          example_generic_hit example_generic_insights quiet_callback_def)
  have "validate_results [(''company_value_prop'', PStr ''TechCorp Solutions provides innovative technology solutions for enterprise clients.''),
        (''product_names'', PList [''Enterprise Software'', ''Cloud Solutions'', ''IT Consulting'']),
        (''pricing_model'', PStr ''TechCorp uses a subscription-based pricing model with tiered plans based on company size and feature requirements.''),
        (''key_competitors'', PList [''Microsoft'', ''IBM'', ''Oracle'']),
        (''company_domain'', PStr ''techcorp.com'')] =
      [(''company_value_prop'', PStr ''TechCorp Solutions provides innovative technology solutions for enterprise clients.''),
        (''product_names'', PList [''Enterprise Software'', ''Cloud Solutions'', ''IT Consulting'']),
        (''pricing_model'', PStr ''TechCorp uses a subscription-based pricing model with tiered plans based on company size and feature requirements.''),
        (''key_competitors'', PList [''Microsoft'', ''IBM'', ''Oracle'']),
        (''company_domain'', PStr ''techcorp.com'')]"
    by (simp add: validate_results_def required_fields_def)
  moreover from loop obtain st where
    "research_loop mock_search (extract_insights no_match) (Some quiet_callback)
      example_company2 \<lparr>p_id = ''p2'', p_company_id = Some ''c2''\<rparr> (initial_state ()) = (None, st)"
    by (cases "research_loop mock_search (extract_insights no_match) (Some quiet_callback)
      example_company2 \<lparr>p_id = ''p2'', p_company_id = Some ''c2''\<rparr> (initial_state ())") simp
  ultimately show ?thesis
    using key entry
    by (simp add: research_person_def example_db_def company_of_def MockSearchProvider_def
          Let_def)
qed


section \<open>Properties of a completed run\<close>

lemma validate_fold_lookup:
  "map_of (fold (\<lambda>field validated.
             case map_of results field of
               None \<Rightarrow> validated
             | Some v \<Rightarrow> if truthy v then AList.update field v validated else validated)
          fs acc) f =
   (if f \<in> set fs \<and> field_present results f then map_of results f else map_of acc f)"
  by (induction fs arbitrary: acc)
     (auto simp: update_conv' field_present_def split: option.splits)

lemma validate_fold_distinct:
  "distinct (map fst acc) \<Longrightarrow>
   distinct (map fst (fold (\<lambda>field validated.
             case map_of results field of
               None \<Rightarrow> validated
             | Some v \<Rightarrow> if truthy v then AList.update field v validated else validated)
          fs acc))"
  by (induction fs arbitrary: acc) (auto simp: distinct_update split: option.splits)

lemma validate_results_lookup:
  "map_of (validate_results results) f =
   (if f \<in> set required_fields \<and> field_present results f then map_of results f else None)"
  unfolding validate_results_def by (simp add: validate_fold_lookup)

lemma validate_results_distinct:
  "distinct (map fst (validate_results results))"
  unfolding validate_results_def by (rule validate_fold_distinct) simp

lemma validate_results_entry:
  assumes "(k, v) \<in> set (validate_results results)"
  shows "k \<in> set required_fields \<and> truthy v \<and> map_of results k = Some v"
proof -
  from assms validate_results_distinct have "map_of (validate_results results) k = Some v"
    by (rule map_of_is_SomeI [rotated])
  then show ?thesis
    by (auto simp: validate_results_lookup field_present_def split: if_splits option.splits)
qed

lemma loop_body_events:
  "loop_body srch ext cb company person st = (None, st') \<Longrightarrow>
   st_iteration st' = Suc (st_iteration st) \<and>
   emitted st' = emitted st @
     (case cb of None \<Rightarrow> []
      | Some c \<Rightarrow> [create_progress_update (st_iteration st) (st_results st')])"
  by (auto simp: loop_body_def Let_def split: prod.splits sum.splits option.splits)

lemma iterate_body_events:
  "fst (iterate_body srch ext cb company person n st) = None \<Longrightarrow>
   st_iteration (snd (iterate_body srch ext cb company person n st)) = st_iteration st + n \<and>
   emitted (snd (iterate_body srch ext cb company person n st)) = emitted st @
     (case cb of None \<Rightarrow> []
      | Some c \<Rightarrow>
          map (\<lambda>k. create_progress_update (st_iteration st + k)
                     (st_results (snd (iterate_body srch ext cb company person (Suc k) st))))
              [0..<n])"
proof (induction n)
  case 0
  then show ?case by (simp split: option.splits)
next
  case (Suc n)
  obtain e st1 where it: "iterate_body srch ext cb company person n st = (e, st1)"
    by (cases "iterate_body srch ext cb company person n st")
  with Suc.prems have e: "e = None" by (cases e) simp_all
  with it have step: "iterate_body srch ext cb company person (Suc n) st =
      loop_body srch ext cb company person st1" by simp
  from it e Suc.IH have i1: "st_iteration st1 = st_iteration st + n"
    and e1: "emitted st1 = emitted st @
     (case cb of None \<Rightarrow> []
      | Some c \<Rightarrow>
          map (\<lambda>k. create_progress_update (st_iteration st + k)
                     (st_results (snd (iterate_body srch ext cb company person (Suc k) st))))
              [0..<n])"
    by simp_all
  obtain st2 where body: "loop_body srch ext cb company person st1 = (None, st2)"
    using Suc.prems step by (cases "loop_body srch ext cb company person st1") simp
  from loop_body_events [OF body] have i2: "st_iteration st2 = Suc (st_iteration st1)"
    and e2: "emitted st2 = emitted st1 @
     (case cb of None \<Rightarrow> []
      | Some c \<Rightarrow> [create_progress_update (st_iteration st1) (st_results st2)])"
    by simp_all
  have s2: "snd (iterate_body srch ext cb company person (Suc n) st) = st2"
    using step body by simp
  show ?case
  proof (cases cb)
    case None
    with i1 i2 e1 e2 show ?thesis unfolding s2 by simp
  next
    case (Some c)
    have "map (\<lambda>k. create_progress_update (st_iteration st + k)
                     (st_results (snd (iterate_body srch ext cb company person (Suc k) st))))
              [0..<Suc n] =
          map (\<lambda>k. create_progress_update (st_iteration st + k)
                     (st_results (snd (iterate_body srch ext cb company person (Suc k) st))))
              [0..<n] @
          [create_progress_update (st_iteration st + n) (st_results st2)]"
      by (simp del: iterate_body.simps add: s2)
    with Some i1 i2 e1 e2 show ?thesis
      unfolding s2 by (simp del: iterate_body.simps)
  qed
qed

lemma research_person_effects:
  assumes "people db person_id = Some person" and "company_of db person = Some company"
  shows "events (snd (research_person db prov rs person_id cb s0)) =
           emitted (snd (research_loop (search prov) (extract_insights rs) cb company person
             (initial_state s0)))"
    and "queries (snd (research_person db prov rs person_id cb s0)) =
           searched (snd (research_loop (search prov) (extract_insights rs) cb company person
             (initial_state s0)))"
    and "fst (research_person db prov rs person_id cb s0) = Inr r \<Longrightarrow>
           fst (research_loop (search prov) (extract_insights rs) cb company person
             (initial_state s0)) = None \<and>
           (\<exists>entry. r = validate_results entry)"
  using assms
  by (auto simp: research_person_def effects_of_def Let_def split: prod.splits option.splits)

text \<open>
  C3 fails on the code. A completed run without a callback has emitted no event at all.
  A completed run with a callback has emitted one \<^verbatim>\<open>progress\<close> update per iteration and
  nothing else: here three updates, the last of which lists all five required fields as
  remaining, while the run returns a result set with all five fields.
\<close>

theorem no_terminal_event_counterexample:
  "fst (research_person example_db silent_provider no_match ''p1'' None ()) =
     Inr [(''company_value_prop'', PStr ''TechCorp Solutions provides innovative technology solutions for enterprise clients.''),
        (''product_names'', PList [''Enterprise Software'', ''Cloud Solutions'', ''IT Consulting'']),
        (''pricing_model'', PStr ''TechCorp uses a subscription-based pricing model with tiered plans based on company size and feature requirements.''),
        (''key_competitors'', PList [''Microsoft'', ''IBM'', ''Oracle'']),
        (''company_domain'', PStr ''techcorp.com'')] \<and>
   events (snd (research_person example_db silent_provider no_match ''p1'' None ())) = [] \<and>
   fst (research_person example_db MockSearchProvider no_match ''p2'' (Some quiet_callback) ()) =
     Inr [(''company_value_prop'', PStr ''TechCorp Solutions provides innovative technology solutions for enterprise clients.''),
        (''product_names'', PList [''Enterprise Software'', ''Cloud Solutions'', ''IT Consulting'']),
        (''pricing_model'', PStr ''TechCorp uses a subscription-based pricing model with tiered plans based on company size and feature requirements.''),
        (''key_competitors'', PList [''Microsoft'', ''IBM'', ''Oracle'']),
        (''company_domain'', PStr ''techcorp.com'')] \<and>
   map (\<lambda>e. (pu_type e, pu_iteration e, total_iterations e, fields_found e, fields_remaining e))
     (events (snd (research_person example_db MockSearchProvider no_match ''p2''
        (Some quiet_callback) ()))) =
     [(''progress'', 1, 3, [''company_value_prop'', ''pricing_model''],
       [''company_value_prop'', ''product_names'', ''pricing_model'', ''key_competitors'',
        ''company_domain'']),
      (''progress'', 2, 3, [''company_value_prop'', ''pricing_model''],
       [''company_value_prop'', ''product_names'', ''pricing_model'', ''key_competitors'',
        ''company_domain'']),
      (''progress'', 3, 3, [''company_value_prop'', ''pricing_model''],
       [''company_value_prop'', ''product_names'', ''pricing_model'', ''key_competitors'',
        ''company_domain''])]"
proof -
  have p1: "people example_db ''p1'' = Some example_person"
    and c1: "company_of example_db example_person = Some example_company"
    and p2: "people example_db ''p2'' = Some \<lparr>p_id = ''p2'', p_company_id = Some ''c2''\<rparr>"
    and c2: "company_of example_db \<lparr>p_id = ''p2'', p_company_id = Some ''c2''\<rparr> =
        Some example_company2"
    by (simp_all add: example_db_def company_of_def example_person_def)
  have name: "c_name example_company2 = Some ''Acme''"
    by (simp add: example_company2_def)
  have "emitted (snd (research_loop silent_search (extract_insights no_match) None
      example_company example_person (initial_state ()))) = []"
    by (simp add: research_loop.simps loop_body_def initial_state_def max_iterations_def
          all_fields_found_def required_fields_def field_present_def dict_update_def
          generate_search_query_def get_missing_fields_def Let_def silent_search_def
          extract_insights_def deduplicate_insights_def dedup_field_def)
  then have a: "events (snd (research_person example_db silent_provider no_match ''p1'' None ())) = []"
    by (simp add: research_person_effects(1) [OF p1 c1] silent_provider_def)
  have "map (\<lambda>e. (pu_type e, pu_iteration e, total_iterations e, fields_found e, fields_remaining e))
     (emitted (snd (research_loop mock_search (extract_insights no_match) (Some quiet_callback)
        example_company2 \<lparr>p_id = ''p2'', p_company_id = Some ''c2''\<rparr> (initial_state ())))) =
     [(''progress'', 1, 3, [''company_value_prop'', ''pricing_model''],
       [''company_value_prop'', ''product_names'', ''pricing_model'', ''key_competitors'',
        ''company_domain'']),
      (''progress'', 2, 3, [''company_value_prop'', ''pricing_model''],
       [''company_value_prop'', ''product_names'', ''pricing_model'', ''key_competitors'',
        ''company_domain'']),
      (''progress'', 3, 3, [''company_value_prop'', ''pricing_model''],
       [''company_value_prop'', ''product_names'', ''pricing_model'', ''key_competitors'',
        ''company_domain''])]"
    by (simp add: research_loop.simps loop_body_def initial_state_def max_iterations_def
          all_fields_found_def required_fields_def field_present_def dict_update_def
          generate_search_query_def get_missing_fields_def Let_def name
          example_generic_hit example_generic_insights quiet_callback_def
          create_progress_update_def)
  then have b: "map (\<lambda>e. (pu_type e, pu_iteration e, total_iterations e, fields_found e, fields_remaining e))
     (events (snd (research_person example_db MockSearchProvider no_match ''p2''
        (Some quiet_callback) ()))) =
     [(''progress'', 1, 3, [''company_value_prop'', ''pricing_model''],
       [''company_value_prop'', ''product_names'', ''pricing_model'', ''key_competitors'',
        ''company_domain'']),
      (''progress'', 2, 3, [''company_value_prop'', ''pricing_model''],
       [''company_value_prop'', ''product_names'', ''pricing_model'', ''key_competitors'',
        ''company_domain'']),
      (''progress'', 3, 3, [''company_value_prop'', ''pricing_model''],
       [''company_value_prop'', ''product_names'', ''pricing_model'', ''key_competitors'',
        ''company_domain''])]"
    by (simp add: research_person_effects(1) [OF p2 c2] MockSearchProvider_def)
  from example_run_silent a example_run_mock b show ?thesis by (intro conjI)
qed

text \<open>
  C3, amended. A completed run of \<^verbatim>\<open>research_person\<close> has emitted no terminal event.
  Without a callback it has emitted nothing. With a callback it has handed the callback
  exactly one update per loop iteration, between one and three of them and as many as
  searches were made: the update of iteration \<open>k\<close> (counted from 0) is the one that
  \<^verbatim>\<open>_create_progress_update\<close> builds from \<open>k\<close> and the results accumulated after the merge of
  that iteration, so it has the type \<^verbatim>\<open>progress\<close>, the number \<open>k + 1\<close> and the total 3.
  The return value is a validated result set: its keys are among the five required field
  names, no key occurs twice, and every value is non-empty.
\<close>

theorem completed_run_result_and_events:
  assumes "fst (research_person db prov rs person_id cb s0) = Inr r"
    and "people db person_id = Some person"
    and "company_of db person = Some company"
  shows "fst ` set r \<subseteq> set required_fields \<and>
    distinct (map fst r) \<and>
    (\<forall>v \<in> snd ` set r. truthy v) \<and>
    (cb = None \<longrightarrow> events (snd (research_person db prov rs person_id cb s0)) = []) \<and>
    (cb \<noteq> None \<longrightarrow>
       1 \<le> length (events (snd (research_person db prov rs person_id cb s0))) \<and>
       length (events (snd (research_person db prov rs person_id cb s0))) \<le> 3 \<and>
       length (events (snd (research_person db prov rs person_id cb s0))) =
         length (queries (snd (research_person db prov rs person_id cb s0))) \<and>
       events (snd (research_person db prov rs person_id cb s0)) =
         map (\<lambda>k. create_progress_update k
                (st_results (snd (iterate_body (search prov) (extract_insights rs) cb company
                   person (Suc k) (initial_state s0)))))
             [0..<length (queries (snd (research_person db prov rs person_id cb s0)))]) \<and>
    (\<forall>e \<in> set (events (snd (research_person db prov rs person_id cb s0))).
       pu_type e = ''progress'' \<and> total_iterations e = 3) \<and>
    map pu_iteration (events (snd (research_person db prov rs person_id cb s0))) =
      [1..<Suc (length (events (snd (research_person db prov rs person_id cb s0))))]"
proof -
  define ev where "ev = events (snd (research_person db prov rs person_id cb s0))"
  define qs where "qs = queries (snd (research_person db prov rs person_id cb s0))"
  define final where "final = research_loop (search prov) (extract_insights rs) cb company person
      (initial_state s0)"
  define after where "after = (\<lambda>k. st_results (snd (iterate_body (search prov)
      (extract_insights rs) cb company person (Suc k) (initial_state s0))))"
  have ev: "ev = emitted (snd final)" and qs: "qs = searched (snd final)"
    unfolding ev_def qs_def final_def
    by (rule research_person_effects [OF assms(2,3)])+
  from research_person_effects(3) [OF assms(2,3) assms(1)]
  have ok: "fst final = None" and "\<exists>entry. r = validate_results entry"
    unfolding final_def by simp_all
  then obtain entry where r: "r = validate_results entry" by (elim exE)
  have keys: "fst ` set r \<subseteq> set required_fields"
    and vals: "\<forall>v \<in> snd ` set r. truthy v"
    unfolding r using validate_results_entry [of _ _ entry] by auto
  have dist: "distinct (map fst r)"
    unfolding r by (rule validate_results_distinct)
  from research_loop_from_start [of "search prov" "extract_insights rs" cb company person s0]
  obtain n where n3: "n \<le> 3"
    and it: "final = iterate_body (search prov) (extract_insights rs) cb company person n
        (initial_state s0)"
    and len: "length (searched (snd final)) = n"
    and fin: "fst final = None \<longrightarrow> st_iteration (snd final) = n \<and>
        (n = 3 \<or> all_fields_found (st_results (snd final)))"
    unfolding final_def by (elim exE conjE)
  have n1: "1 \<le> n"
  proof (rule ccontr)
    assume "\<not> 1 \<le> n"
    then have n0: "n = 0" by simp
    with it have "st_results (snd final) = []" by (simp add: initial_state_def)
    then have "\<not> all_fields_found (st_results (snd final))"
      by (simp add: all_fields_found_def required_fields_def field_present_def)
    with fin ok n0 show False by simp
  qed
  from ok it have "fst (iterate_body (search prov) (extract_insights rs) cb company person n
      (initial_state s0)) = None" by simp
  from iterate_body_events [OF this]
  have "emitted (snd final) = emitted (initial_state s0) @
     (case cb of None \<Rightarrow> []
      | Some c \<Rightarrow>
          map (\<lambda>k. create_progress_update (st_iteration (initial_state s0) + k) (after k)) [0..<n])"
    unfolding it after_def by (rule conjunct2)
  then have em: "ev = (case cb of None \<Rightarrow> []
      | Some c \<Rightarrow> map (\<lambda>k. create_progress_update k (after k)) [0..<n])"
    by (cases cb) (simp_all add: ev initial_state_def)
  from qs len have qn: "length qs = n" by simp
  have none: "cb = None \<longrightarrow> ev = []"
    using em by simp
  have some: "cb \<noteq> None \<longrightarrow>
      1 \<le> length ev \<and> length ev \<le> 3 \<and> length ev = length qs \<and>
      ev = map (\<lambda>k. create_progress_update k (after k)) [0..<length qs]"
    using em n1 n3 qn by (cases cb) simp_all
  have shape: "\<forall>e \<in> set ev. pu_type e = ''progress'' \<and> total_iterations e = 3"
    using em by (cases cb) (auto simp: create_progress_update_def)
  have "map pu_iteration (map (\<lambda>k. create_progress_update k (after k)) [0..<m]) = [1..<Suc m]" for m
    by (induction m) (simp_all add: create_progress_update_def)
  then have nums: "map pu_iteration ev = [1..<Suc (length ev)]"
    using em by (cases cb) simp_all
  from keys dist vals none some shape nums show ?thesis
    unfolding ev_def qs_def after_def by (intro conjI)
qed

theorem completed_run_result_and_events_witness:
  "people example_db ''p2'' = Some \<lparr>p_id = ''p2'', p_company_id = Some ''c2''\<rparr> \<and>
   company_of example_db \<lparr>p_id = ''p2'', p_company_id = Some ''c2''\<rparr> = Some example_company2 \<and>
   Some quiet_callback \<noteq> None \<and>
   people example_db ''p1'' = Some example_person \<and>
   company_of example_db example_person = Some example_company \<and>
   events (snd (research_person example_db silent_provider no_match ''p1'' None ())) = [] \<and>
   1 \<le> length (events (snd (research_person example_db MockSearchProvider no_match ''p2''
          (Some quiet_callback) ()))) \<and>
   length (events (snd (research_person example_db MockSearchProvider no_match ''p2''
          (Some quiet_callback) ()))) \<le> 3 \<and>
   map pu_iteration (events (snd (research_person example_db MockSearchProvider no_match ''p2''
          (Some quiet_callback) ()))) =
     [1..<Suc (length (events (snd (research_person example_db MockSearchProvider no_match ''p2''
          (Some quiet_callback) ()))))] \<and>
   distinct (map fst
     [(''company_value_prop'', PStr ''TechCorp Solutions provides innovative technology solutions for enterprise clients.''),
        (''product_names'', PList [''Enterprise Software'', ''Cloud Solutions'', ''IT Consulting'']),
        (''pricing_model'', PStr ''TechCorp uses a subscription-based pricing model with tiered plans based on company size and feature requirements.''),
        (''key_competitors'', PList [''Microsoft'', ''IBM'', ''Oracle'']),
        (''company_domain'', PStr ''techcorp.com'')])"
proof -
  have p2: "people example_db ''p2'' = Some \<lparr>p_id = ''p2'', p_company_id = Some ''c2''\<rparr>"
    and c2: "company_of example_db \<lparr>p_id = ''p2'', p_company_id = Some ''c2''\<rparr> =
        Some example_company2"
    by (simp_all add: example_db_def company_of_def)
  have cb: "Some quiet_callback \<noteq> None" by simp
  have p1: "people example_db ''p1'' = Some example_person"
    and c1: "company_of example_db example_person = Some example_company"
    by (simp_all add: example_db_def company_of_def example_person_def)
  from completed_run_result_and_events [OF example_run_silent p1 c1]
  have "(None :: callback option) = None \<longrightarrow>
      events (snd (research_person example_db silent_provider no_match ''p1'' None ())) = []"
    by (elim conjE)
  then have quiet:
    "events (snd (research_person example_db silent_provider no_match ''p1'' None ())) = []"
    by simp
  note t = completed_run_result_and_events [OF example_run_mock p2 c2]
  from t have d: "distinct (map fst
     [(''company_value_prop'', PStr ''TechCorp Solutions provides innovative technology solutions for enterprise clients.''),
        (''product_names'', PList [''Enterprise Software'', ''Cloud Solutions'', ''IT Consulting'']),
        (''pricing_model'', PStr ''TechCorp uses a subscription-based pricing model with tiered plans based on company size and feature requirements.''),
        (''key_competitors'', PList [''Microsoft'', ''IBM'', ''Oracle'']),
        (''company_domain'', PStr ''techcorp.com'')])"
    by (elim conjE)
  from t have nums: "map pu_iteration (events (snd (research_person example_db MockSearchProvider
          no_match ''p2'' (Some quiet_callback) ()))) =
     [1..<Suc (length (events (snd (research_person example_db MockSearchProvider no_match ''p2''
          (Some quiet_callback) ()))))]"
    by (elim conjE)
  from t have "Some quiet_callback \<noteq> None \<longrightarrow>
       1 \<le> length (events (snd (research_person example_db MockSearchProvider no_match ''p2''
          (Some quiet_callback) ()))) \<and>
       length (events (snd (research_person example_db MockSearchProvider no_match ''p2''
          (Some quiet_callback) ()))) \<le> 3 \<and>
       length (events (snd (research_person example_db MockSearchProvider no_match ''p2''
          (Some quiet_callback) ()))) =
         length (queries (snd (research_person example_db MockSearchProvider no_match ''p2''
          (Some quiet_callback) ()))) \<and>
       events (snd (research_person example_db MockSearchProvider no_match ''p2''
          (Some quiet_callback) ())) =
         map (\<lambda>k. create_progress_update k
                (st_results (snd (iterate_body (search MockSearchProvider) (extract_insights no_match)
                   (Some quiet_callback) example_company2
                   \<lparr>p_id = ''p2'', p_company_id = Some ''c2''\<rparr> (Suc k) (initial_state ())))))
             [0..<length (queries (snd (research_person example_db MockSearchProvider no_match ''p2''
          (Some quiet_callback) ())))]"
    by (elim conjE)
  with cb have lo: "1 \<le> length (events (snd (research_person example_db MockSearchProvider no_match
          ''p2'' (Some quiet_callback) ())))"
    and hi: "length (events (snd (research_person example_db MockSearchProvider no_match ''p2''
          (Some quiet_callback) ()))) \<le> 3"
    by blast+
  from p2 c2 cb p1 c1 quiet lo hi nums d show ?thesis by (intro conjI)
qed

section \<open>Properties of the merge step\<close>

lemma example_insights_a:
  "extract_insights example_match [example_hit_a] example_company =
     Inr [(''company_value_prop'', PStr ''Acme provides software on subscription.''),
          (''product_names'', PList [''Software'']),
          (''pricing_model'', PStr ''Subscription-based pricing model'')]"
  by (simp add: extract_insights_def deduplicate_insights_def dedup_field_def
        insights_step_def clean_text_def strip_def is_space_def field_present_def
        extract_value_prop_def value_prop_patterns_def example_match_def extract_products_def
        extract_pricing_def extract_competitors_def common_competitors_def get_list_def
        list_set_def lower_examples example_company_def example_hit_a_def Let_def)

lemma example_insights_b:
  "extract_insights example_match [example_hit_b] example_company =
     Inr [(''company_value_prop'', PNone),
          (''product_names'', PList [''Consulting'']),
          (''pricing_model'', PNone)]"
  by (simp add: extract_insights_def deduplicate_insights_def dedup_field_def
        insights_step_def clean_text_def strip_def is_space_def field_present_def
        extract_value_prop_def value_prop_patterns_def example_match_def extract_products_def
        extract_pricing_def extract_competitors_def common_competitors_def get_list_def
        list_set_def lower_examples example_company_def example_hit_b_def Let_def)

lemma example_insights_a_b:
  "extract_insights example_match [example_hit_a, example_hit_b] example_company =
     Inr [(''company_value_prop'', PStr ''Acme provides software on subscription.''),
          (''product_names'', PList [''Software'', ''Consulting'']),
          (''pricing_model'', PStr ''Subscription-based pricing model'')]"
  by (simp add: extract_insights_def deduplicate_insights_def dedup_field_def
        insights_step_def clean_text_def strip_def is_space_def field_present_def
        extract_value_prop_def value_prop_patterns_def example_match_def extract_products_def
        extract_pricing_def extract_competitors_def common_competitors_def get_list_def
        list_set_def lower_examples example_company_def example_hit_a_def example_hit_b_def
        Let_def)

text \<open>
  C1 does not hold of the code. The provider's first search finds the value proposition,
  the product \<^verbatim>\<open>Software\<close> and the pricing model of Acme, and the first iteration merges
  them into the results: the first progress update lists the competitors and the domain
  as the fields remaining. The second search finds a page that only mentions consulting:
  \<^verbatim>\<open>results.update(extracted_data)\<close> then replaces the value proposition and the pricing
  model by \<^verbatim>\<open>None\<close> and the product list by \<^verbatim>\<open>['Consulting']\<close>, the second progress
  update lists the value proposition and the pricing model as remaining again, and the
  loop ends with these results. The loop over the hits inside \<^verbatim>\<open>_extract_insights\<close> does
  on the same two pages what the claim says: the scalar fields keep their first value and
  the products are united.
\<close>

theorem merge_overwrites_found_fields:
  "st_results (snd (loop_body scripted_search (extract_insights example_match)
      (Some quiet_callback) example_company example_person (initial_state 0))) =
     [(''company_value_prop'', PStr ''Acme provides software on subscription.''),
      (''product_names'', PList [''Software'']),
      (''pricing_model'', PStr ''Subscription-based pricing model'')] \<and>
   st_results (snd (iterate_body scripted_search (extract_insights example_match)
      (Some quiet_callback) example_company example_person 2 (initial_state 0))) =
     [(''company_value_prop'', PNone),
      (''product_names'', PList [''Consulting'']),
      (''pricing_model'', PNone)] \<and>
   fst (research_loop scripted_search (extract_insights example_match) (Some quiet_callback)
      example_company example_person (initial_state 0)) = None \<and>
   st_results (snd (research_loop scripted_search (extract_insights example_match)
      (Some quiet_callback) example_company example_person (initial_state 0))) =
     [(''company_value_prop'', PNone),
      (''product_names'', PList [''Consulting'']),
      (''pricing_model'', PNone)] \<and>
   searched (snd (research_loop scripted_search (extract_insights example_match)
      (Some quiet_callback) example_company example_person (initial_state 0))) =
     [''Acme company overview products pricing'',
      ''Acme competitors alternatives vs'',
      ''Acme value proposition mission what does''] \<and>
   map (\<lambda>e. (pu_iteration e, fields_remaining e))
     (emitted (snd (research_loop scripted_search (extract_insights example_match)
        (Some quiet_callback) example_company example_person (initial_state 0)))) =
     [(1, [''key_competitors'', ''company_domain'']),
      (2, [''company_value_prop'', ''pricing_model'', ''key_competitors'', ''company_domain'']),
      (3, [''company_value_prop'', ''pricing_model'', ''key_competitors'', ''company_domain''])] \<and>
   dict_update
     [(''company_value_prop'', PStr ''Acme provides software on subscription.''),
      (''product_names'', PList [''Software'']),
      (''pricing_model'', PStr ''Subscription-based pricing model'')]
     [(''company_value_prop'', PNone),
      (''product_names'', PList [''Consulting'']),
      (''pricing_model'', PNone)] =
     [(''company_value_prop'', PNone),
      (''product_names'', PList [''Consulting'']),
      (''pricing_model'', PNone)] \<and>
   extract_insights example_match [example_hit_a, example_hit_b] example_company =
     Inr [(''company_value_prop'', PStr ''Acme provides software on subscription.''),
          (''product_names'', PList [''Software'', ''Consulting'']),
          (''pricing_model'', PStr ''Subscription-based pricing model'')]"
proof -
  have name: "c_name example_company = Some ''Acme''"
    by (simp add: example_company_def)
  have search: "scripted_search 0 q = (Inr [example_hit_a], Suc 0)"
    "scripted_search (Suc n) q = (Inr [example_hit_b], Suc (Suc n))" for q n
    by (simp_all add: scripted_search_def)
  have a: "st_results (snd (loop_body scripted_search (extract_insights example_match)
      (Some quiet_callback) example_company example_person (initial_state 0))) =
     [(''company_value_prop'', PStr ''Acme provides software on subscription.''),
      (''product_names'', PList [''Software'']),
      (''pricing_model'', PStr ''Subscription-based pricing model'')]"
    by (simp add: loop_body_def initial_state_def search example_insights_a dict_update_def
          Let_def quiet_callback_def)
  have b: "st_results (snd (iterate_body scripted_search (extract_insights example_match)
      (Some quiet_callback) example_company example_person 2 (initial_state 0))) =
     [(''company_value_prop'', PNone),
      (''product_names'', PList [''Consulting'']),
      (''pricing_model'', PNone)]"
    by (simp add: numeral_2_eq_2 loop_body_def initial_state_def search example_insights_a
          example_insights_b dict_update_def Let_def quiet_callback_def)
  have c: "fst (research_loop scripted_search (extract_insights example_match)
      (Some quiet_callback) example_company example_person (initial_state 0)) = None \<and>
   st_results (snd (research_loop scripted_search (extract_insights example_match)
      (Some quiet_callback) example_company example_person (initial_state 0))) =
     [(''company_value_prop'', PNone),
      (''product_names'', PList [''Consulting'']),
      (''pricing_model'', PNone)] \<and>
   searched (snd (research_loop scripted_search (extract_insights example_match)
      (Some quiet_callback) example_company example_person (initial_state 0))) =
     [''Acme company overview products pricing'',
      ''Acme competitors alternatives vs'',
      ''Acme value proposition mission what does''] \<and>
   map (\<lambda>e. (pu_iteration e, fields_remaining e))
     (emitted (snd (research_loop scripted_search (extract_insights example_match)
        (Some quiet_callback) example_company example_person (initial_state 0)))) =
     [(1, [''key_competitors'', ''company_domain'']),
      (2, [''company_value_prop'', ''pricing_model'', ''key_competitors'', ''company_domain'']),
      (3, [''company_value_prop'', ''pricing_model'', ''key_competitors'', ''company_domain''])]"
    by (simp add: research_loop.simps loop_body_def initial_state_def max_iterations_def
          all_fields_found_def required_fields_def field_present_def dict_update_def
          generate_search_query_def get_missing_fields_def Let_def name search
          example_insights_a example_insights_b quiet_callback_def
          create_progress_update_def)
  have d: "dict_update
     [(''company_value_prop'', PStr ''Acme provides software on subscription.''),
      (''product_names'', PList [''Software'']),
      (''pricing_model'', PStr ''Subscription-based pricing model'')]
     [(''company_value_prop'', PNone),
      (''product_names'', PList [''Consulting'']),
      (''pricing_model'', PNone)] =
     [(''company_value_prop'', PNone),
      (''product_names'', PList [''Consulting'']),
      (''pricing_model'', PNone)]"
    by (simp add: dict_update_def)
  from a b c d example_insights_a_b show ?thesis by simp
qed

end
